theory Spec2Isabelle
  imports Main
begin

section \<open>The relational store behind the Topic Maps models\<close>

text \<open>
  The models of \<^verbatim>\<open>tmapi/models\<close> are Django models: every instance is a row of a
  table, a foreign key is the primary key of the row it points to, a many-to-many
  field is a link table of pairs of primary keys. The state of the program is the
  content of these tables. Primary keys are assigned by the store when a row is saved
  for the first time (an \<^verbatim>\<open>AutoField\<close>): each table has a sequence holding the next
  key.
\<close>

type_synonym key = nat

text \<open>
  The modules that declare the columns (\<^verbatim>\<open>construct_fields.py\<close>, \<^verbatim>\<open>role.py\<close>,
  \<^verbatim>\<open>occurrence.py\<close>, \<^verbatim>\<open>item_identifier.py\<close>, \<^verbatim>\<open>subject_identifier.py\<close>,
  \<^verbatim>\<open>subject_locator.py\<close>) are not among the sources. The records below have the
  columns that the sources name when they build and query the rows:
  \<^verbatim>\<open>Topic(topic_map=self)\<close>,
  \<^verbatim>\<open>Association(type=association_type, topic_map=self)\<close>,
  \<^verbatim>\<open>Role(association=self, type=role_type, player=player, topic_map=self.topic_map)\<close>,
  \<^verbatim>\<open>Occurrence(type=type, value=value, datatype=..., topic=self, topic_map=self.topic_map)\<close>,
  \<^verbatim>\<open>ItemIdentifier(address=reference, containing_topic_map=self)\<close>,
  \<^verbatim>\<open>SubjectIdentifier(topic=topic, address=reference)\<close>,
  \<^verbatim>\<open>SubjectLocator(topic=topic, address=reference)\<close>.
  \<^verbatim>\<open>ConstructFields\<close> gives every construct its primary key, the foreign key
  \<^verbatim>\<open>topic_map\<close> and the many-to-many field \<^verbatim>\<open>item_identifiers\<close> (one link table for
  each kind of construct). A \<^verbatim>\<open>Topic\<close> has no column of its own (\<^verbatim>\<open>types\<close> is a link
  table).
\<close>

record construct_fields =
  pk :: key
  topic_map :: key

type_synonym topic = construct_fields

record association = construct_fields +
  association_type :: key

record role = construct_fields +
  association :: key
  role_type :: key
  player :: key

text \<open>
  \<^verbatim>\<open>Locator(reference)\<close>: a value object wrapping an IRI reference
  (\<^verbatim>\<open>get_reference\<close>). What \<^verbatim>\<open>to_external_form\<close> makes of the reference is not in
  the sources.
\<close>

datatype locator = Locator (get_reference: string)

text \<open>The value of an occurrence is a string or a \<^verbatim>\<open>Locator\<close> (\<^verbatim>\<open>isinstance(value, Locator)\<close>).\<close>

datatype occurrence_value = StringValue string | LocatorValue locator

record occurrence = construct_fields +
  occurrence_type :: key
  occurrence_value :: occurrence_value
  occurrence_datatype :: string
  occurrence_topic :: key

record item_identifier =
  ii_pk :: key
  ii_address :: string
  containing_topic_map :: key

record subject_identifier =
  si_pk :: key
  si_topic :: key
  si_address :: string

record subject_locator =
  sl_pk :: key
  sl_topic :: key
  sl_address :: string

record database =
  topics :: "topic list"
  topic_item_identifiers :: "(key \<times> key) list"
  topic_types :: "(key \<times> key) list"
  item_identifiers :: "item_identifier list"
  subject_identifiers :: "subject_identifier list"
  subject_locators :: "subject_locator list"
  associations :: "association list"
  association_item_identifiers :: "(key \<times> key) list"
  roles :: "role list"
  occurrences :: "occurrence list"
  topic_seq :: key
  item_identifier_seq :: key
  subject_identifier_seq :: key
  subject_locator_seq :: key
  role_seq :: key
  occurrence_seq :: key

text \<open>
  The exceptions of the source. \<^verbatim>\<open>DoesNotExist\<close> and \<^verbatim>\<open>MultipleObjectsReturned\<close>
  are the two ways in which \<^verbatim>\<open>QuerySet.get\<close> fails; \<^verbatim>\<open>IntegrityError\<close> is what
  \<^verbatim>\<open>save\<close> raises when the store refuses a row; \<^verbatim>\<open>Exception msg\<close> is Python's
  plain \<^verbatim>\<open>Exception(msg)\<close>.
\<close>

datatype error =
  ModelConstraintException
  | DoesNotExist
  | MultipleObjectsReturned
  | IntegrityError
  | Exception string

text \<open>
  \<^verbatim>\<open>QuerySet.get\<close>: the single row of the query, \<^verbatim>\<open>DoesNotExist\<close> when there is
  none, \<^verbatim>\<open>MultipleObjectsReturned\<close> when there are several (rows that a join
  repeats count as several).
\<close>

fun get :: "'a list \<Rightarrow> error + 'a" where
  "get [] = Inl DoesNotExist"
| "get [x] = Inr x"
| "get (x # y # zs) = Inl MultipleObjectsReturned"

text \<open>
  \<^verbatim>\<open>manager.add(obj)\<close> on a many-to-many field: the link is inserted unless it is
  there already.
\<close>

definition m2m_add :: "(key \<times> key) list \<Rightarrow> key \<times> key \<Rightarrow> (key \<times> key) list" where
  "m2m_add links l = (if l \<in> set links then links else links @ [l])"

section \<open>Topic\<close>

text \<open>
  \<^verbatim>\<open>Topic.add_type\<close> (topic.py, 41-50).
\<close>

definition add_type :: "database \<Rightarrow> topic \<Rightarrow> topic \<Rightarrow> error + database" where
  "add_type db self type' =
     (if topic_map self \<noteq> topic_map type' then Inl ModelConstraintException
      else Inr (db\<lparr>topic_types := m2m_add (topic_types db) (pk self, pk type')\<rparr>))"

text \<open>\<^verbatim>\<open>Topic.get_types\<close>: the topics linked to this one through \<^verbatim>\<open>types\<close>.\<close>

definition get_types :: "database \<Rightarrow> topic \<Rightarrow> topic list" where
  "get_types db self =
     concat (map (\<lambda>l. if fst l = pk self then filter (\<lambda>t. pk t = snd l) (topics db) else [])
       (topic_types db))"

text \<open>
  Modelled from the spec: the constants \<^verbatim>\<open>XSD_ANY_URI\<close> and \<^verbatim>\<open>XSD_STRING\<close> of
  \<^verbatim>\<open>tmapi/constants.py\<close>, which is not among the sources; the spec names them
  xsd:anyURI and xsd:string, and the tests use the second as the IRI below.
\<close>

definition XSD_ANY_URI :: string where
  "XSD_ANY_URI = ''http://www.w3.org/2001/XMLSchema#anyURI''"

definition XSD_STRING :: string where
  "XSD_STRING = ''http://www.w3.org/2001/XMLSchema#string''"

text \<open>
  \<^verbatim>\<open>Topic.create_occurrence\<close> (topic.py, 83-110). \<^verbatim>\<open>Locator.to_external_form\<close>
  lives in \<^verbatim>\<open>locator.py\<close>, which is not among the sources: it is a parameter of
  every operation that calls it. The \<^verbatim>\<open>scope\<close> argument is accepted and never used.
\<close>

definition create_occurrence ::
  "(locator \<Rightarrow> string) \<Rightarrow> database \<Rightarrow> topic \<Rightarrow> topic \<Rightarrow> occurrence_value \<Rightarrow>
     topic list option \<Rightarrow> locator option \<Rightarrow> occurrence \<times> database" where
  "create_occurrence to_external_form db self type' val scope datatype' =
     (let datatype'' =
            (case datatype' of
               None \<Rightarrow>
                 (case val of
                    LocatorValue _ \<Rightarrow> Locator XSD_ANY_URI
                  | StringValue _ \<Rightarrow> Locator XSD_STRING)
             | Some d \<Rightarrow> d);
          occurrence =
            \<lparr>pk = occurrence_seq db, topic_map = topic_map self,
             occurrence_type = pk type', occurrence_value = val,
             occurrence_datatype = to_external_form datatype'',
             occurrence_topic = pk self\<rparr>
      in (occurrence,
          db\<lparr>occurrences := occurrences db @ [occurrence],
             occurrence_seq := Suc (occurrence_seq db)\<rparr>))"

text \<open>
  \<^verbatim>\<open>Topic.get_roles_played\<close> (topic.py, 166-192). \<^verbatim>\<open>self.role_players\<close> is the
  reverse of the foreign key \<^verbatim>\<open>Role.player\<close>; \<^verbatim>\<open>roles.filter()\<close> is a filter with
  no condition.
\<close>

definition role_players :: "database \<Rightarrow> topic \<Rightarrow> role list" where
  "role_players db self = filter (\<lambda>r. player r = pk self) (roles db)"

definition get_roles_played ::
  "database \<Rightarrow> topic \<Rightarrow> topic option \<Rightarrow> topic option \<Rightarrow> error + role list" where
  "get_roles_played db self role_type' association_type' =
     (case role_type' of
        Some rt \<Rightarrow>
          (let roles' = filter (\<lambda>r. role_type r = pk rt) (role_players db self)
           in case association_type' of
                Some _ \<Rightarrow> Inr (filter (\<lambda>r. True) roles')
              | None \<Rightarrow> Inr roles')
      | None \<Rightarrow>
          (case association_type' of
             Some _ \<Rightarrow>
               Inl (Exception ''This is a broken call to get_roles_played, specifying an assocation type but not a role type'')
           | None \<Rightarrow> Inr (role_players db self)))"

section \<open>Association\<close>

text \<open>\<^verbatim>\<open>Association.create_role\<close> (association.py, 16-31).\<close>

definition create_role ::
  "database \<Rightarrow> association \<Rightarrow> topic option \<Rightarrow> topic option \<Rightarrow> error + role \<times> database" where
  "create_role db self role_type' player' =
     (case (role_type', player') of
        (Some rt, Some p) \<Rightarrow>
          (let role =
                 \<lparr>pk = role_seq db, topic_map = topic_map self,
                  association = pk self, role_type = pk rt, player = pk p\<rparr>
           in Inr (role, db\<lparr>roles := roles db @ [role], role_seq := Suc (role_seq db)\<rparr>))
      | _ \<Rightarrow> Inl ModelConstraintException)"

section \<open>TopicMap\<close>

text \<open>
  A \<^verbatim>\<open>TopicMap\<close> is represented by its primary key. \<^verbatim>\<open>self.topic_constructs\<close> is
  the reverse of the foreign key \<^verbatim>\<open>Topic.topic_map\<close>: the topics of this topic map.
\<close>

definition topic_constructs :: "database \<Rightarrow> key \<Rightarrow> topic list" where
  "topic_constructs db self = filter (\<lambda>t. topic_map t = self) (topics db)"

text \<open>
  \<^verbatim>\<open>topic.item_identifiers.all()\<close>: the rows of \<^verbatim>\<open>ItemIdentifier\<close> that the link
  table joins to the topic. \<^verbatim>\<open>topic.subject_identifiers.all()\<close> and
  \<^verbatim>\<open>topic.subject_locators.all()\<close> (\<^verbatim>\<open>Topic.get_subject_identifiers\<close>,
  \<^verbatim>\<open>Topic.get_subject_locators\<close>; topic.py, 194-208) are the reverses of foreign keys.
\<close>

definition get_item_identifiers :: "database \<Rightarrow> topic \<Rightarrow> item_identifier list" where
  "get_item_identifiers db self =
     concat (map (\<lambda>l. if fst l = pk self
                       then filter (\<lambda>i. ii_pk i = snd l) (item_identifiers db) else [])
       (topic_item_identifiers db))"

definition get_subject_identifiers :: "database \<Rightarrow> topic \<Rightarrow> subject_identifier list" where
  "get_subject_identifiers db self =
     filter (\<lambda>s. si_topic s = pk self) (subject_identifiers db)"

definition get_subject_locators :: "database \<Rightarrow> topic \<Rightarrow> subject_locator list" where
  "get_subject_locators db self =
     filter (\<lambda>s. sl_topic s = pk self) (subject_locators db)"

text \<open>
  The three queries \<^verbatim>\<open>filter(item_identifiers__address=reference)\<close>,
  \<^verbatim>\<open>filter(subject_identifiers__address=reference)\<close> and
  \<^verbatim>\<open>filter(subject_locators__address=reference)\<close> on a set of topics: an inner join,
  so a topic comes once for every identifier row of it that has the address.
\<close>

definition item_identifiers__address :: "database \<Rightarrow> string \<Rightarrow> topic list \<Rightarrow> topic list" where
  "item_identifiers__address db reference ts =
     concat (map (\<lambda>t. map (\<lambda>_. t)
       (filter (\<lambda>i. ii_address i = reference) (get_item_identifiers db t))) ts)"

definition subject_identifiers__address :: "database \<Rightarrow> string \<Rightarrow> topic list \<Rightarrow> topic list" where
  "subject_identifiers__address db reference ts =
     concat (map (\<lambda>t. map (\<lambda>_. t)
       (filter (\<lambda>s. si_address s = reference) (get_subject_identifiers db t))) ts)"

definition subject_locators__address :: "database \<Rightarrow> string \<Rightarrow> topic list \<Rightarrow> topic list" where
  "subject_locators__address db reference ts =
     concat (map (\<lambda>t. map (\<lambda>_. t)
       (filter (\<lambda>s. sl_address s = reference) (get_subject_locators db t))) ts)"

text \<open>\<^verbatim>\<open>topic = Topic(topic_map=self); topic.save()\<close>: a new row with the next key.\<close>

definition save_topic :: "database \<Rightarrow> key \<Rightarrow> topic \<times> database" where
  "save_topic db self =
     (let topic = \<lparr>pk = topic_seq db, topic_map = self\<rparr>
      in (topic, db\<lparr>topics := topics db @ [topic], topic_seq := Suc (topic_seq db)\<rparr>))"

text \<open>\<^verbatim>\<open>TopicMap.create_topic\<close> (topic_map.py, 61-77).\<close>

definition create_topic :: "database \<Rightarrow> key \<Rightarrow> topic \<times> database" where
  "create_topic db self = save_topic db self"

text \<open>
  Modelled from the spec: the uniqueness index of the store on the item identifiers of
  a topic map (section 6: a uniqueness-enforcing index on (topic map, item identifier)
  across all item-identifiable kinds). \<^verbatim>\<open>item_identifier.py\<close>, which declares the
  table, is not among the sources. A row with this address exists already in this
  topic map, whatever construct owns it.
\<close>

definition item_identifier_taken :: "database \<Rightarrow> key \<Rightarrow> string \<Rightarrow> bool" where
  "item_identifier_taken db self reference \<longleftrightarrow>
     (\<exists>i \<in> set (item_identifiers db).
        ii_address i = reference \<and> containing_topic_map i = self)"

text \<open>
  \<^verbatim>\<open>ii = ItemIdentifier(address=reference, containing_topic_map=self); ii.save()\<close>:
  the store refuses the row with \<^verbatim>\<open>IntegrityError\<close> when the index above is violated;
  otherwise the row gets the next key.
\<close>

definition save_item_identifier ::
  "database \<Rightarrow> key \<Rightarrow> string \<Rightarrow> error + item_identifier \<times> database" where
  "save_item_identifier db self reference =
     (if item_identifier_taken db self reference then Inl IntegrityError
      else (let ii = \<lparr>ii_pk = item_identifier_seq db, ii_address = reference,
                      containing_topic_map = self\<rparr>
            in Inr (ii, db\<lparr>item_identifiers := item_identifiers db @ [ii],
                          item_identifier_seq := Suc (item_identifier_seq db)\<rparr>)))"

text \<open>
  \<^verbatim>\<open>ii = ItemIdentifier(address=reference, containing_topic_map=self); ii.save();
  topic.item_identifiers.add(ii)\<close>
\<close>

definition add_item_identifier :: "database \<Rightarrow> key \<Rightarrow> topic \<Rightarrow> string \<Rightarrow> error + database" where
  "add_item_identifier db self topic reference =
     (case save_item_identifier db self reference of
        Inl e \<Rightarrow> Inl e
      | Inr (ii, db1) \<Rightarrow>
          Inr (db1\<lparr>topic_item_identifiers :=
                     m2m_add (topic_item_identifiers db1) (pk topic, ii_pk ii)\<rparr>))"

text \<open>
  \<^verbatim>\<open>si = SubjectIdentifier(topic=topic, address=reference); si.save();
  topic.subject_identifiers.add(si)\<close>: the row already points to the topic, so the
  \<^verbatim>\<open>add\<close> of the reverse manager changes nothing. A subject identifier belongs to
  a topic, and the method saves the row only after its query found no topic of the
  topic map with this address.
\<close>

definition add_subject_identifier :: "database \<Rightarrow> topic \<Rightarrow> string \<Rightarrow> database" where
  "add_subject_identifier db topic reference =
     (let si = \<lparr>si_pk = subject_identifier_seq db, si_topic = pk topic,
                si_address = reference\<rparr>
      in db\<lparr>subject_identifiers := subject_identifiers db @ [si],
            subject_identifier_seq := Suc (subject_identifier_seq db)\<rparr>)"

text \<open>
  \<^verbatim>\<open>TopicMap.create_topic_by_item_identifier\<close> (topic_map.py, 79-115). Only
  \<^verbatim>\<open>Topic.DoesNotExist\<close> is caught; any other exception of \<^verbatim>\<open>get\<close> leaves the method.
  The item identifier is saved after the inner \<^verbatim>\<open>try\<close>, for a topic found by its
  subject identifier and for a new topic alike. Since \<^verbatim>\<open>ii.save()\<close> can fail after
  \<^verbatim>\<open>topic.save()\<close> has written, a failure comes with the store as it is when the
  exception leaves the method.
\<close>

definition create_topic_by_item_identifier ::
  "(locator \<Rightarrow> string) \<Rightarrow> database \<Rightarrow> key \<Rightarrow> locator option \<Rightarrow>
     error \<times> database + topic \<times> database" where
  "create_topic_by_item_identifier to_external_form db self item_identifier' =
     (case item_identifier' of
        None \<Rightarrow> Inl (ModelConstraintException, db)
      | Some loc \<Rightarrow>
          (let reference = to_external_form loc
           in case get (item_identifiers__address db reference (topic_constructs db self)) of
                Inr topic \<Rightarrow> Inr (topic, db)
              | Inl DoesNotExist \<Rightarrow>
                  (case (case get (subject_identifiers__address db reference
                                     (topic_constructs db self)) of
                           Inr topic \<Rightarrow> Inr (topic, db)
                         | Inl DoesNotExist \<Rightarrow> Inr (save_topic db self)
                         | Inl e \<Rightarrow> Inl (e, db)) of
                     Inl failure \<Rightarrow> Inl failure
                   | Inr (topic, db1) \<Rightarrow>
                       (case add_item_identifier db1 self topic reference of
                          Inl e \<Rightarrow> Inl (e, db1)
                        | Inr db2 \<Rightarrow> Inr (topic, db2)))
              | Inl e \<Rightarrow> Inl (e, db)))"

text \<open>\<^verbatim>\<open>TopicMap.create_topic_by_subject_identifier\<close> (topic_map.py, 117-154).\<close>

definition create_topic_by_subject_identifier ::
  "(locator \<Rightarrow> string) \<Rightarrow> database \<Rightarrow> key \<Rightarrow> locator option \<Rightarrow> error + topic \<times> database" where
  "create_topic_by_subject_identifier to_external_form db self subject_identifier' =
     (case subject_identifier' of
        None \<Rightarrow> Inl ModelConstraintException
      | Some loc \<Rightarrow>
          (let reference = to_external_form loc
           in case get (subject_identifiers__address db reference (topic_constructs db self)) of
                Inr topic \<Rightarrow> Inr (topic, db)
              | Inl DoesNotExist \<Rightarrow>
                  (case get (item_identifiers__address db reference (topic_constructs db self)) of
                     Inr topic \<Rightarrow> Inr (topic, add_subject_identifier db topic reference)
                   | Inl DoesNotExist \<Rightarrow>
                       (let (topic, db1) = save_topic db self
                        in Inr (topic, add_subject_identifier db1 topic reference))
                   | Inl e \<Rightarrow> Inl e)
              | Inl e \<Rightarrow> Inl e))"

text \<open>
  \<^verbatim>\<open>TopicMap.get_topic_by_subject_identifier\<close> and
  \<^verbatim>\<open>TopicMap.get_topic_by_subject_locator\<close> (topic_map.py, 235-273).
\<close>

definition get_topic_by_subject_identifier ::
  "(locator \<Rightarrow> string) \<Rightarrow> database \<Rightarrow> key \<Rightarrow> locator \<Rightarrow> error + topic option" where
  "get_topic_by_subject_identifier to_external_form db self subject_identifier' =
     (let reference = to_external_form subject_identifier'
      in case get (subject_identifiers__address db reference (topic_constructs db self)) of
           Inr topic \<Rightarrow> Inr (Some topic)
         | Inl DoesNotExist \<Rightarrow> Inr None
         | Inl e \<Rightarrow> Inl e)"

definition get_topic_by_subject_locator ::
  "(locator \<Rightarrow> string) \<Rightarrow> database \<Rightarrow> key \<Rightarrow> locator \<Rightarrow> error + topic option" where
  "get_topic_by_subject_locator to_external_form db self subject_locator' =
     (let reference = to_external_form subject_locator'
      in case get (subject_locators__address db reference (topic_constructs db self)) of
           Inr topic \<Rightarrow> Inr (Some topic)
         | Inl DoesNotExist \<Rightarrow> Inr None
         | Inl e \<Rightarrow> Inl e)"

section \<open>Topic maps as states of the store\<close>

text \<open>
  What the store guarantees of its tables: primary keys of topics are unique, and
  every key in use for topics and their identifiers (a primary key, a foreign key, a
  key in a link table) has been handed out by its sequence.
\<close>

definition keys_ok :: "database \<Rightarrow> bool" where
  "keys_ok db \<longleftrightarrow>
     distinct (map pk (topics db)) \<and>
     (\<forall>t \<in> set (topics db). pk t < topic_seq db) \<and>
     (\<forall>l \<in> set (topic_item_identifiers db).
        fst l < topic_seq db \<and> snd l < item_identifier_seq db) \<and>
     (\<forall>i \<in> set (item_identifiers db). ii_pk i < item_identifier_seq db) \<and>
     (\<forall>s \<in> set (subject_identifiers db). si_topic s < topic_seq db) \<and>
     (\<forall>s \<in> set (subject_locators db). sl_topic s < topic_seq db)"

text \<open>The addresses a topic owns as item identifiers and as subject identifiers.\<close>

definition ii_addresses :: "database \<Rightarrow> topic \<Rightarrow> string list" where
  "ii_addresses db t = map ii_address (get_item_identifiers db t)"

definition si_addresses :: "database \<Rightarrow> topic \<Rightarrow> string list" where
  "si_addresses db t = map si_address (get_subject_identifiers db t)"

text \<open>
  The identity invariant of the data model: a topic holds an address at most once in
  each of the two namespaces, and within one topic map two topics that hold the same
  address, as an item identifier or as a subject identifier, are the same topic (an
  item identifier and a subject identifier with equal addresses denote one subject).
\<close>

definition identifiers_unique :: "database \<Rightarrow> bool" where
  "identifiers_unique db \<longleftrightarrow>
     (\<forall>t \<in> set (topics db).
        distinct (ii_addresses db t) \<and> distinct (si_addresses db t) \<and>
        (\<forall>u \<in> set (topics db).
           topic_map u = topic_map t \<and>
           (set (ii_addresses db t) \<union> set (si_addresses db t)) \<inter>
           (set (ii_addresses db u) \<union> set (si_addresses db u)) \<noteq> {} \<longrightarrow> u = t))"

definition wf :: "database \<Rightarrow> bool" where
  "wf db \<longleftrightarrow> keys_ok db \<and> identifiers_unique db"

text \<open>
  The store after an item identifier row for \<open>reference\<close> has been saved and linked to
  the topic: what \<open>add_item_identifier\<close> returns when the index lets the row in.
\<close>

definition with_item_identifier :: "database \<Rightarrow> key \<Rightarrow> topic \<Rightarrow> string \<Rightarrow> database" where
  "with_item_identifier db self topic reference =
     (let ii = \<lparr>ii_pk = item_identifier_seq db, ii_address = reference,
                containing_topic_map = self\<rparr>
      in db\<lparr>item_identifiers := item_identifiers db @ [ii],
            item_identifier_seq := Suc (item_identifier_seq db),
            topic_item_identifiers := m2m_add (topic_item_identifiers db) (pk topic, ii_pk ii)\<rparr>)"

text \<open>
  Only topics hold the address as an item identifier in topic map \<open>self\<close>: if the
  topic map has an item identifier row with this address, a topic of the topic map owns
  the address.
\<close>

definition only_topics_hold :: "database \<Rightarrow> key \<Rightarrow> string \<Rightarrow> bool" where
  "only_topics_hold db self reference \<longleftrightarrow>
     (item_identifier_taken db self reference \<longrightarrow>
        (\<exists>t \<in> set (topics db). topic_map t = self \<and> reference \<in> set (ii_addresses db t)))"

text \<open>A non-topic construct (an association) of topic map \<open>self\<close> owns the address as an item identifier.\<close>

definition association_owns_item_identifier :: "database \<Rightarrow> key \<Rightarrow> string \<Rightarrow> bool" where
  "association_owns_item_identifier db self reference \<longleftrightarrow>
     (\<exists>a \<in> set (associations db). topic_map a = self \<and>
        (\<exists>l \<in> set (association_item_identifiers db). fst l = pk a \<and>
           (\<exists>i \<in> set (item_identifiers db). ii_pk i = snd l \<and> ii_address i = reference)))"

text \<open>The empty store, and stores used as examples.\<close>

definition empty_database :: database where
  "empty_database =
     \<lparr>topics = [], topic_item_identifiers = [], topic_types = [], item_identifiers = [],
      subject_identifiers = [], subject_locators = [], associations = [],
      association_item_identifiers = [], roles = [], occurrences = [],
      topic_seq = 0, item_identifier_seq = 0, subject_identifier_seq = 0,
      subject_locator_seq = 0, role_seq = 0, occurrence_seq = 0\<rparr>"

text \<open>Topic 0 of topic map 5 owns the address \<open>a\<close> as an item identifier.\<close>

definition db_item :: database where
  "db_item = empty_database
     \<lparr>topics := [\<lparr>pk = 0, topic_map = 5\<rparr>],
      topic_item_identifiers := [(0, 0)],
      item_identifiers := [\<lparr>ii_pk = 0, ii_address = ''a'', containing_topic_map = 5\<rparr>],
      topic_seq := 1, item_identifier_seq := 1\<rparr>"

text \<open>Topic 0 of topic map 5 owns the address \<open>a\<close> as a subject identifier.\<close>

definition db_subject :: database where
  "db_subject = empty_database
     \<lparr>topics := [\<lparr>pk = 0, topic_map = 5\<rparr>],
      subject_identifiers := [\<lparr>si_pk = 0, si_topic = 0, si_address = ''a''\<rparr>],
      topic_seq := 1, subject_identifier_seq := 1\<rparr>"

text \<open>
  Topic map 5 holds the topic 0 and an association 0 of type 0; the association owns
  the address \<open>a\<close> as an item identifier, no topic does.
\<close>

definition db_association :: database where
  "db_association = empty_database
     \<lparr>topics := [\<lparr>pk = 0, topic_map = 5\<rparr>],
      associations := [\<lparr>pk = 0, topic_map = 5, association_type = 0\<rparr>],
      association_item_identifiers := [(0, 0)],
      item_identifiers := [\<lparr>ii_pk = 0, ii_address = ''a'', containing_topic_map = 5\<rparr>],
      topic_seq := 1, item_identifier_seq := 1\<rparr>"

text \<open>
  The store \<open>db_association\<close> with one more topic of topic map 5, topic 1, which owns
  the address \<open>a\<close> as a subject identifier.
\<close>

definition db_association_subject :: database where
  "db_association_subject = db_association
     \<lparr>topics := [\<lparr>pk = 0, topic_map = 5\<rparr>, \<lparr>pk = 1, topic_map = 5\<rparr>],
      subject_identifiers := [\<lparr>si_pk = 0, si_topic = 1, si_address = ''a''\<rparr>],
      topic_seq := 2, subject_identifier_seq := 1\<rparr>"

text \<open>
  Two topic maps: topic 0 and the association 0 in topic map 5, the topics 2 and 3 in
  topic map 6. Topic 0 plays a role of type 2 in the association.
\<close>

definition db_two_maps :: database where
  "db_two_maps = empty_database
     \<lparr>topics := [\<lparr>pk = 0, topic_map = 5\<rparr>, \<lparr>pk = 2, topic_map = 6\<rparr>, \<lparr>pk = 3, topic_map = 6\<rparr>],
      associations := [\<lparr>pk = 0, topic_map = 5, association_type = 0\<rparr>],
      roles := [\<lparr>pk = 0, topic_map = 5, association = 0, role_type = 2, player = 0\<rparr>],
      topic_seq := 4, role_seq := 1\<rparr>"

section \<open>Queries and writes on well-formed stores\<close>

subsection \<open>Joins that return one row or none\<close>

lemma concat_map_single:
  "distinct xs \<Longrightarrow> x \<in> set xs \<Longrightarrow> f x = [y] \<Longrightarrow> (\<forall>x'\<in>set xs. x' \<noteq> x \<longrightarrow> f x' = []) \<Longrightarrow> concat (map f xs) = [y]"
  by (induction xs) auto

lemma concat_map_none:
  "(\<forall>x'\<in>set xs. f x' = []) \<Longrightarrow> concat (map f xs) = []"
  by (induction xs) auto

lemma filter_key_single:
  "distinct (map f xs) \<Longrightarrow> k \<in> set (map f xs) \<Longrightarrow> \<exists>x. filter (\<lambda>x. f x = k) xs = [x]"
proof (induction xs)
  case Nil
  then show ?case by simp
next
  case (Cons a xs)
  show ?case
  proof (cases "f a = k")
    case True
    with Cons.prems have "k \<notin> f ` set xs" by auto
    then have "filter (\<lambda>x. f x = k) xs = []" by (auto simp: filter_empty_conv)
    with True show ?thesis by simp
  next
    case False
    with Cons show ?thesis by auto
  qed
qed

lemma distinct_topics: "keys_ok db \<Longrightarrow> distinct (topics db)"
  by (auto simp: keys_ok_def dest: distinct_map[THEN iffD1])

lemma pk_inj: "keys_ok db \<Longrightarrow> t \<in> set (topics db) \<Longrightarrow> u \<in> set (topics db) \<Longrightarrow> pk t = pk u \<Longrightarrow> t = u"
  by (auto simp: keys_ok_def distinct_map dest: inj_onD)

lemma set_item_identifiers__address:
  "set (item_identifiers__address db r ts) = {t \<in> set ts. r \<in> set (ii_addresses db t)}"
  by (auto simp: item_identifiers__address_def ii_addresses_def)

lemma set_subject_identifiers__address:
  "set (subject_identifiers__address db r ts) = {t \<in> set ts. r \<in> set (si_addresses db t)}"
  by (auto simp: subject_identifiers__address_def si_addresses_def)

lemma ii_lookup_found:
  assumes "wf db" "t \<in> set (topics db)" "topic_map t = tm" "r \<in> set (ii_addresses db t)"
  shows "item_identifiers__address db r (topic_constructs db tm) = [t]"
proof -
  from assms(1) have d: "distinct (topic_constructs db tm)"
    by (simp add: wf_def topic_constructs_def distinct_topics)
  from assms have tin: "t \<in> set (topic_constructs db tm)" by (simp add: topic_constructs_def)
  from assms(1,2) have "distinct (map ii_address (get_item_identifiers db t))"
    by (auto simp: wf_def identifiers_unique_def ii_addresses_def)
  with assms(4) obtain i where "filter (\<lambda>i. ii_address i = r) (get_item_identifiers db t) = [i]"
    using filter_key_single[of ii_address "get_item_identifiers db t" r]
    by (auto simp: ii_addresses_def)
  then have one: "(\<lambda>t. map (\<lambda>_. t) (filter (\<lambda>i. ii_address i = r) (get_item_identifiers db t))) t = [t]"
    by simp
  have other: "\<forall>u \<in> set (topic_constructs db tm). u \<noteq> t \<longrightarrow>
      (\<lambda>t. map (\<lambda>_. t) (filter (\<lambda>i. ii_address i = r) (get_item_identifiers db t))) u = []"
  proof (intro ballI impI)
    fix u assume u: "u \<in> set (topic_constructs db tm)" "u \<noteq> t"
    then have "u \<in> set (topics db)" "topic_map u = topic_map t"
      using assms(3) by (auto simp: topic_constructs_def)
    with assms(1,2,4) u(2) have "r \<notin> set (ii_addresses db u)"
      unfolding wf_def identifiers_unique_def by blast
    then show "map (\<lambda>_. u) (filter (\<lambda>i. ii_address i = r) (get_item_identifiers db u)) = []"
      by (auto simp: ii_addresses_def filter_empty_conv)
  qed
  show ?thesis
    unfolding item_identifiers__address_def
    by (rule concat_map_single[OF d tin one other])
qed

lemma si_lookup_found:
  assumes "wf db" "t \<in> set (topics db)" "topic_map t = tm" "r \<in> set (si_addresses db t)"
  shows "subject_identifiers__address db r (topic_constructs db tm) = [t]"
proof -
  from assms(1) have d: "distinct (topic_constructs db tm)"
    by (simp add: wf_def topic_constructs_def distinct_topics)
  from assms have tin: "t \<in> set (topic_constructs db tm)" by (simp add: topic_constructs_def)
  from assms(1,2) have "distinct (map si_address (get_subject_identifiers db t))"
    by (auto simp: wf_def identifiers_unique_def si_addresses_def)
  with assms(4) obtain i where "filter (\<lambda>i. si_address i = r) (get_subject_identifiers db t) = [i]"
    using filter_key_single[of si_address "get_subject_identifiers db t" r]
    by (auto simp: si_addresses_def)
  then have one: "(\<lambda>t. map (\<lambda>_. t) (filter (\<lambda>i. si_address i = r) (get_subject_identifiers db t))) t = [t]"
    by simp
  have other: "\<forall>u \<in> set (topic_constructs db tm). u \<noteq> t \<longrightarrow>
      (\<lambda>t. map (\<lambda>_. t) (filter (\<lambda>i. si_address i = r) (get_subject_identifiers db t))) u = []"
  proof (intro ballI impI)
    fix u assume u: "u \<in> set (topic_constructs db tm)" "u \<noteq> t"
    then have "u \<in> set (topics db)" "topic_map u = topic_map t"
      using assms(3) by (auto simp: topic_constructs_def)
    with assms(1,2,4) u(2) have "r \<notin> set (si_addresses db u)"
      unfolding wf_def identifiers_unique_def by blast
    then show "map (\<lambda>_. u) (filter (\<lambda>i. si_address i = r) (get_subject_identifiers db u)) = []"
      by (auto simp: si_addresses_def filter_empty_conv)
  qed
  show ?thesis
    unfolding subject_identifiers__address_def
    by (rule concat_map_single[OF d tin one other])
qed

lemma ii_lookup_none:
  assumes "\<forall>t \<in> set (topics db). topic_map t = tm \<longrightarrow> r \<notin> set (ii_addresses db t)"
  shows "item_identifiers__address db r (topic_constructs db tm) = []"
proof -
  from assms have "set (item_identifiers__address db r (topic_constructs db tm)) = {}"
    unfolding set_item_identifiers__address by (auto simp: topic_constructs_def)
  then show ?thesis by simp
qed

lemma si_lookup_none:
  assumes "\<forall>t \<in> set (topics db). topic_map t = tm \<longrightarrow> r \<notin> set (si_addresses db t)"
  shows "subject_identifiers__address db r (topic_constructs db tm) = []"
proof -
  from assms have "set (subject_identifiers__address db r (topic_constructs db tm)) = {}"
    unfolding set_subject_identifiers__address by (auto simp: topic_constructs_def)
  then show ?thesis by simp
qed


subsection \<open>Effects of the three writes\<close>

lemma add_subject_identifier_simps [simp]:
  "topics (add_subject_identifier db t r) = topics db"
  "topic_seq (add_subject_identifier db t r) = topic_seq db"
  "get_item_identifiers (add_subject_identifier db t r) u = get_item_identifiers db u"
  "ii_addresses (add_subject_identifier db t r) u = ii_addresses db u"
  "topic_constructs (add_subject_identifier db t r) tm = topic_constructs db tm"
  by (simp_all add: add_subject_identifier_def get_item_identifiers_def ii_addresses_def
      topic_constructs_def Let_def cong: if_cong)

lemma si_addresses_add_subject_identifier:
  "si_addresses (add_subject_identifier db t r) u =
     si_addresses db u @ (if pk u = pk t then [r] else [])"
  by (simp add: add_subject_identifier_def si_addresses_def get_subject_identifiers_def Let_def)

lemma keys_ok_add_subject_identifier:
  "keys_ok db \<Longrightarrow> pk t < topic_seq db \<Longrightarrow> keys_ok (add_subject_identifier db t r)"
  by (auto simp: keys_ok_def add_subject_identifier_def Let_def)

lemma with_item_identifier_simps [simp]:
  "topics (with_item_identifier db tm t r) = topics db"
  "topic_seq (with_item_identifier db tm t r) = topic_seq db"
  "get_subject_identifiers (with_item_identifier db tm t r) u = get_subject_identifiers db u"
  "si_addresses (with_item_identifier db tm t r) u = si_addresses db u"
  "topic_constructs (with_item_identifier db tm t r) tm' = topic_constructs db tm'"
  by (simp_all add: with_item_identifier_def get_subject_identifiers_def si_addresses_def
      topic_constructs_def Let_def)

lemma get_item_identifiers_old_links:
  assumes "\<forall>l \<in> set ls. snd l < n" "ii_pk new = n"
  shows "concat (map (\<lambda>l. if fst l = k then filter (\<lambda>i. ii_pk i = snd l) (is @ [new]) else []) ls)
       = concat (map (\<lambda>l. if fst l = k then filter (\<lambda>i. ii_pk i = snd l) is else []) ls)"
  using assms by (induction ls) auto

lemma ii_addresses_with_item_identifier:
  assumes "keys_ok db"
  shows "ii_addresses (with_item_identifier db tm t r) u =
     ii_addresses db u @ (if pk u = pk t then [r] else [])"
proof -
  let ?n = "item_identifier_seq db"
  let ?new = "\<lparr>ii_pk = ?n, ii_address = r, containing_topic_map = tm\<rparr>"
  from assms have links: "\<forall>l \<in> set (topic_item_identifiers db). snd l < ?n"
    and rows: "\<forall>i \<in> set (item_identifiers db). ii_pk i < ?n"
    by (auto simp: keys_ok_def)
  from links have notin: "(pk t, ?n) \<notin> set (topic_item_identifiers db)" by auto
  from rows have old: "filter (\<lambda>i. ii_pk i = ?n) (item_identifiers db) = []"
    by (auto simp: filter_empty_conv)
  have "get_item_identifiers (with_item_identifier db tm t r) u =
      concat (map (\<lambda>l. if fst l = pk u
          then filter (\<lambda>i. ii_pk i = snd l) (item_identifiers db @ [?new]) else [])
        (topic_item_identifiers db @ [(pk t, ?n)]))"
    using notin
    by (simp add: get_item_identifiers_def with_item_identifier_def m2m_add_def Let_def
        cong: if_cong)
  also have "\<dots> = get_item_identifiers db u @ (if pk u = pk t then [?new] else [])"
    using old get_item_identifiers_old_links[OF links, of ?new "pk u" "item_identifiers db"]
    by (simp add: get_item_identifiers_def)
  finally show ?thesis by (simp add: ii_addresses_def)
qed

lemma keys_ok_with_item_identifier:
  "keys_ok db \<Longrightarrow> pk t < topic_seq db \<Longrightarrow> keys_ok (with_item_identifier db tm t r)"
  by (auto simp: keys_ok_def with_item_identifier_def m2m_add_def Let_def less_Suc_eq)

lemma save_topic_simps [simp]:
  "fst (save_topic db tm) = \<lparr>pk = topic_seq db, topic_map = tm\<rparr>"
  "topics (snd (save_topic db tm)) = topics db @ [\<lparr>pk = topic_seq db, topic_map = tm\<rparr>]"
  "topic_seq (snd (save_topic db tm)) = Suc (topic_seq db)"
  "get_item_identifiers (snd (save_topic db tm)) u = get_item_identifiers db u"
  "get_subject_identifiers (snd (save_topic db tm)) u = get_subject_identifiers db u"
  "get_subject_locators (snd (save_topic db tm)) u = get_subject_locators db u"
  "ii_addresses (snd (save_topic db tm)) u = ii_addresses db u"
  "si_addresses (snd (save_topic db tm)) u = si_addresses db u"
  by (simp_all add: save_topic_def get_item_identifiers_def get_subject_identifiers_def
      get_subject_locators_def ii_addresses_def si_addresses_def Let_def cong: if_cong)

lemma new_topic_no_identifiers:
  assumes "keys_ok db"
  shows "get_item_identifiers db \<lparr>pk = topic_seq db, topic_map = tm\<rparr> = []"
    and "get_subject_identifiers db \<lparr>pk = topic_seq db, topic_map = tm\<rparr> = []"
    and "get_subject_locators db \<lparr>pk = topic_seq db, topic_map = tm\<rparr> = []"
proof -
  from assms have "\<forall>l \<in> set (topic_item_identifiers db). fst l \<noteq> topic_seq db"
    by (auto simp: keys_ok_def)
  then show "get_item_identifiers db \<lparr>pk = topic_seq db, topic_map = tm\<rparr> = []"
    unfolding get_item_identifiers_def by (intro concat_map_none) simp
  from assms show "get_subject_identifiers db \<lparr>pk = topic_seq db, topic_map = tm\<rparr> = []"
    by (auto simp: keys_ok_def get_subject_identifiers_def filter_empty_conv)
  from assms show "get_subject_locators db \<lparr>pk = topic_seq db, topic_map = tm\<rparr> = []"
    by (auto simp: keys_ok_def get_subject_locators_def filter_empty_conv)
qed

lemma new_topic_fresh:
  "keys_ok db \<Longrightarrow> \<lparr>pk = topic_seq db, topic_map = tm\<rparr> \<notin> set (topics db)"
  by (auto simp: keys_ok_def)

lemma keys_ok_save_topic: "keys_ok db \<Longrightarrow> keys_ok (snd (save_topic db tm))"
  by (auto simp: keys_ok_def save_topic_def Let_def less_Suc_eq)

lemma identifiers_unique_save_topic:
  assumes "wf db"
  shows "identifiers_unique (snd (save_topic db tm))"
proof -
  from assms have k: "keys_ok db" and u: "identifiers_unique db" by (simp_all add: wf_def)
  have e: "ii_addresses db \<lparr>pk = topic_seq db, topic_map = tm\<rparr> = []"
          "si_addresses db \<lparr>pk = topic_seq db, topic_map = tm\<rparr> = []"
    using new_topic_no_identifiers[OF k, of tm] by (simp_all add: ii_addresses_def si_addresses_def)
  show ?thesis
    using u e unfolding identifiers_unique_def by (auto simp: Ball_def)
qed

lemma wf_save_topic: "wf db \<Longrightarrow> wf (snd (save_topic db tm))"
  using keys_ok_save_topic identifiers_unique_save_topic by (simp add: wf_def)


subsection \<open>The identity invariant is kept\<close>

lemma identifiers_uniqueD:
  assumes "identifiers_unique db" "t \<in> set (topics db)" "u \<in> set (topics db)"
    "topic_map u = topic_map t"
    "a \<in> set (ii_addresses db t) \<union> set (si_addresses db t)"
    "a \<in> set (ii_addresses db u) \<union> set (si_addresses db u)"
  shows "u = t"
proof -
  from assms(5,6) have
    "(set (ii_addresses db t) \<union> set (si_addresses db t)) \<inter>
     (set (ii_addresses db u) \<union> set (si_addresses db u)) \<noteq> {}" by blast
  with assms(1-4) show ?thesis unfolding identifiers_unique_def by blast
qed

lemma identifiers_unique_add_subject_identifier:
  assumes wf: "wf db" and t: "t \<in> set (topics db)"
    and nosi: "\<forall>u \<in> set (topics db). topic_map u = topic_map t \<longrightarrow> r \<notin> set (si_addresses db u)"
    and ii: "\<forall>u \<in> set (topics db). topic_map u = topic_map t \<and> r \<in> set (ii_addresses db u) \<longrightarrow> u = t"
  shows "identifiers_unique (add_subject_identifier db t r)"
proof -
  let ?db = "add_subject_identifier db t r"
  from wf have k: "keys_ok db" and iu: "identifiers_unique db" by (simp_all add: wf_def)
  have si: "si_addresses ?db x = si_addresses db x @ (if x = t then [r] else [])"
    if "x \<in> set (topics db)" for x
    using pk_inj[OF k that t] by (auto simp: si_addresses_add_subject_identifier)
  have own: "x = t \<or> r \<in> set (ii_addresses db x) \<union> set (si_addresses db x) \<Longrightarrow> x = t"
    if "x \<in> set (topics db)" "topic_map x = topic_map t" for x
    using that nosi ii by blast
  show ?thesis
    unfolding identifiers_unique_def
  proof (intro ballI conjI impI)
    fix x assume "x \<in> set (topics ?db)"
    then have x: "x \<in> set (topics db)" by simp
    from iu x show "distinct (ii_addresses ?db x)" by (simp add: identifiers_unique_def)
    from iu x nosi show "distinct (si_addresses ?db x)"
      by (auto simp: si[OF x] identifiers_unique_def)
    fix u assume "u \<in> set (topics ?db)"
    then have u: "u \<in> set (topics db)" by simp
    assume h: "topic_map u = topic_map x \<and>
      (set (ii_addresses ?db x) \<union> set (si_addresses ?db x)) \<inter>
      (set (ii_addresses ?db u) \<union> set (si_addresses ?db u)) \<noteq> {}"
    then obtain a where m: "topic_map u = topic_map x"
      and ax: "a \<in> set (ii_addresses db x) \<union> set (si_addresses db x) \<or> (x = t \<and> a = r)"
      and au: "a \<in> set (ii_addresses db u) \<union> set (si_addresses db u) \<or> (u = t \<and> a = r)"
      by (auto simp: si[OF x] si[OF u] split: if_splits)
    show "u = x"
    proof (cases "x = t \<and> a = r")
      case True
      with au m own[OF u] show ?thesis by auto
    next
      case False
      with ax have ax': "a \<in> set (ii_addresses db x) \<union> set (si_addresses db x)" by blast
      show ?thesis
      proof (cases "u = t \<and> a = r")
        case True
        with ax' m own[OF x] show ?thesis by auto
      next
        case False
        with au have "a \<in> set (ii_addresses db u) \<union> set (si_addresses db u)" by blast
        with ax' show ?thesis using identifiers_uniqueD[OF iu x u m] by blast
      qed
    qed
  qed
qed

lemma identifiers_unique_with_item_identifier:
  assumes wf: "wf db" and t: "t \<in> set (topics db)"
    and noii: "\<forall>u \<in> set (topics db). topic_map u = topic_map t \<longrightarrow> r \<notin> set (ii_addresses db u)"
    and si: "\<forall>u \<in> set (topics db). topic_map u = topic_map t \<and> r \<in> set (si_addresses db u) \<longrightarrow> u = t"
  shows "identifiers_unique (with_item_identifier db tm t r)"
proof -
  let ?db = "with_item_identifier db tm t r"
  from wf have k: "keys_ok db" and iu: "identifiers_unique db" by (simp_all add: wf_def)
  have ii: "ii_addresses ?db x = ii_addresses db x @ (if x = t then [r] else [])"
    if "x \<in> set (topics db)" for x
    using pk_inj[OF k that t] by (auto simp: ii_addresses_with_item_identifier[OF k])
  have own: "x = t \<or> r \<in> set (ii_addresses db x) \<union> set (si_addresses db x) \<Longrightarrow> x = t"
    if "x \<in> set (topics db)" "topic_map x = topic_map t" for x
    using that noii si by blast
  show ?thesis
    unfolding identifiers_unique_def
  proof (intro ballI conjI impI)
    fix x assume "x \<in> set (topics ?db)"
    then have x: "x \<in> set (topics db)" by simp
    from iu x show "distinct (si_addresses ?db x)" by (simp add: identifiers_unique_def)
    from iu x noii show "distinct (ii_addresses ?db x)"
      by (auto simp: ii[OF x] identifiers_unique_def)
    fix u assume "u \<in> set (topics ?db)"
    then have u: "u \<in> set (topics db)" by simp
    assume h: "topic_map u = topic_map x \<and>
      (set (ii_addresses ?db x) \<union> set (si_addresses ?db x)) \<inter>
      (set (ii_addresses ?db u) \<union> set (si_addresses ?db u)) \<noteq> {}"
    then obtain a where m: "topic_map u = topic_map x"
      and ax: "a \<in> set (ii_addresses db x) \<union> set (si_addresses db x) \<or> (x = t \<and> a = r)"
      and au: "a \<in> set (ii_addresses db u) \<union> set (si_addresses db u) \<or> (u = t \<and> a = r)"
      by (auto simp: ii[OF x] ii[OF u] split: if_splits)
    show "u = x"
    proof (cases "x = t \<and> a = r")
      case True
      with au m own[OF u] show ?thesis by auto
    next
      case False
      with ax have ax': "a \<in> set (ii_addresses db x) \<union> set (si_addresses db x)" by blast
      show ?thesis
      proof (cases "u = t \<and> a = r")
        case True
        with ax' m own[OF x] show ?thesis by auto
      next
        case False
        with au have "a \<in> set (ii_addresses db u) \<union> set (si_addresses db u)" by blast
        with ax' show ?thesis using identifiers_uniqueD[OF iu x u m] by blast
      qed
    qed
  qed
qed


subsection \<open>The two factory operations, case by case\<close>

lemma topic_bound: "keys_ok db \<Longrightarrow> t \<in> set (topics db) \<Longrightarrow> pk t < topic_seq db"
  by (simp add: keys_ok_def)

lemma by_si_found_si:
  assumes "wf db" "t \<in> set (topics db)" "topic_map t = tm"
    "to_external_form loc \<in> set (si_addresses db t)"
  shows "create_topic_by_subject_identifier to_external_form db tm (Some loc) = Inr (t, db)"
  using si_lookup_found[OF assms]
  by (simp add: create_topic_by_subject_identifier_def)

lemma by_si_found_ii:
  assumes "wf db"
    "\<forall>u \<in> set (topics db). topic_map u = tm \<longrightarrow> to_external_form loc \<notin> set (si_addresses db u)"
    "t \<in> set (topics db)" "topic_map t = tm"
    "to_external_form loc \<in> set (ii_addresses db t)"
  shows "create_topic_by_subject_identifier to_external_form db tm (Some loc) =
     Inr (t, add_subject_identifier db t (to_external_form loc))"
  using si_lookup_none[OF assms(2)] ii_lookup_found[OF assms(1,3,4,5)]
  by (simp add: create_topic_by_subject_identifier_def)

lemma by_si_new:
  assumes
    "\<forall>u \<in> set (topics db). topic_map u = tm \<longrightarrow> to_external_form loc \<notin> set (si_addresses db u)"
    "\<forall>u \<in> set (topics db). topic_map u = tm \<longrightarrow> to_external_form loc \<notin> set (ii_addresses db u)"
  shows "create_topic_by_subject_identifier to_external_form db tm (Some loc) =
     Inr (\<lparr>pk = topic_seq db, topic_map = tm\<rparr>,
          add_subject_identifier (snd (save_topic db tm)) \<lparr>pk = topic_seq db, topic_map = tm\<rparr>
            (to_external_form loc))"
  using si_lookup_none[OF assms(1)] ii_lookup_none[OF assms(2)]
  by (simp add: create_topic_by_subject_identifier_def case_prod_unfold)

lemma add_item_identifier_eq:
  "add_item_identifier db tm t r =
     (if item_identifier_taken db tm r then Inl IntegrityError
      else Inr (with_item_identifier db tm t r))"
  by (simp add: add_item_identifier_def save_item_identifier_def with_item_identifier_def Let_def)

lemma item_identifier_taken_save_topic [simp]:
  "item_identifier_taken (snd (save_topic db tm)) tm' r = item_identifier_taken db tm' r"
  by (simp add: item_identifier_taken_def save_topic_def Let_def)

lemma by_ii_found_ii:
  assumes "wf db" "t \<in> set (topics db)" "topic_map t = tm"
    "to_external_form loc \<in> set (ii_addresses db t)"
  shows "create_topic_by_item_identifier to_external_form db tm (Some loc) = Inr (t, db)"
  using ii_lookup_found[OF assms]
  by (simp add: create_topic_by_item_identifier_def)

lemma by_ii_found_si:
  assumes "wf db"
    "\<forall>u \<in> set (topics db). topic_map u = tm \<longrightarrow> to_external_form loc \<notin> set (ii_addresses db u)"
    "t \<in> set (topics db)" "topic_map t = tm"
    "to_external_form loc \<in> set (si_addresses db t)"
  shows "create_topic_by_item_identifier to_external_form db tm (Some loc) =
     (if item_identifier_taken db tm (to_external_form loc) then Inl (IntegrityError, db)
      else Inr (t, with_item_identifier db tm t (to_external_form loc)))"
  using ii_lookup_none[OF assms(2)] si_lookup_found[OF assms(1,3,4,5)]
  by (simp add: create_topic_by_item_identifier_def add_item_identifier_eq)

lemma by_ii_new:
  assumes
    "\<forall>u \<in> set (topics db). topic_map u = tm \<longrightarrow> to_external_form loc \<notin> set (ii_addresses db u)"
    "\<forall>u \<in> set (topics db). topic_map u = tm \<longrightarrow> to_external_form loc \<notin> set (si_addresses db u)"
  shows "create_topic_by_item_identifier to_external_form db tm (Some loc) =
     (if item_identifier_taken db tm (to_external_form loc)
      then Inl (IntegrityError, snd (save_topic db tm))
      else Inr (\<lparr>pk = topic_seq db, topic_map = tm\<rparr>,
          with_item_identifier (snd (save_topic db tm)) tm \<lparr>pk = topic_seq db, topic_map = tm\<rparr>
            (to_external_form loc)))"
  using ii_lookup_none[OF assms(1)] si_lookup_none[OF assms(2)]
  by (simp add: create_topic_by_item_identifier_def add_item_identifier_eq case_prod_unfold)

lemma wf_add_subject_identifier_owner:
  assumes wf: "wf db" and t: "t \<in> set (topics db)"
    and nosi: "\<forall>u \<in> set (topics db). topic_map u = topic_map t \<longrightarrow> r \<notin> set (si_addresses db u)"
    and own: "r \<in> set (ii_addresses db t)"
  shows "wf (add_subject_identifier db t r)"
proof -
  from wf have k: "keys_ok db" and iu: "identifiers_unique db" by (simp_all add: wf_def)
  have "\<forall>u \<in> set (topics db). topic_map u = topic_map t \<and> r \<in> set (ii_addresses db u) \<longrightarrow> u = t"
    using identifiers_uniqueD[OF iu t] own by blast
  from identifiers_unique_add_subject_identifier[OF wf t nosi this]
    keys_ok_add_subject_identifier[OF k topic_bound[OF k t]]
  show ?thesis by (simp add: wf_def)
qed

lemma wf_with_item_identifier_owner:
  assumes wf: "wf db" and t: "t \<in> set (topics db)"
    and noii: "\<forall>u \<in> set (topics db). topic_map u = topic_map t \<longrightarrow> r \<notin> set (ii_addresses db u)"
    and own: "r \<in> set (si_addresses db t)"
  shows "wf (with_item_identifier db tm t r)"
proof -
  from wf have k: "keys_ok db" and iu: "identifiers_unique db" by (simp_all add: wf_def)
  have "\<forall>u \<in> set (topics db). topic_map u = topic_map t \<and> r \<in> set (si_addresses db u) \<longrightarrow> u = t"
    using identifiers_uniqueD[OF iu t] own by blast
  from identifiers_unique_with_item_identifier[OF wf t noii this]
    keys_ok_with_item_identifier[OF k topic_bound[OF k t]]
  show ?thesis by (simp add: wf_def)
qed

lemma wf_add_subject_identifier_new:
  assumes wf: "wf db"
    and nosi: "\<forall>u \<in> set (topics db). topic_map u = tm \<longrightarrow> r \<notin> set (si_addresses db u)"
    and noii: "\<forall>u \<in> set (topics db). topic_map u = tm \<longrightarrow> r \<notin> set (ii_addresses db u)"
  shows "wf (add_subject_identifier (snd (save_topic db tm)) \<lparr>pk = topic_seq db, topic_map = tm\<rparr> r)"
proof -
  let ?t = "\<lparr>pk = topic_seq db, topic_map = tm\<rparr>"
  let ?db = "snd (save_topic db tm)"
  from wf have k: "keys_ok db" by (simp add: wf_def)
  have e: "ii_addresses db ?t = []" "si_addresses db ?t = []"
    using new_topic_no_identifiers[OF k, of tm] by (simp_all add: ii_addresses_def si_addresses_def)
  have w: "wf ?db" by (rule wf_save_topic[OF wf])
  then have k': "keys_ok ?db" by (simp add: wf_def)
  have t: "?t \<in> set (topics ?db)" by simp
  have 1: "\<forall>u \<in> set (topics ?db). topic_map u = topic_map ?t \<longrightarrow> r \<notin> set (si_addresses ?db u)"
    using nosi e by auto
  have 2: "\<forall>u \<in> set (topics ?db). topic_map u = topic_map ?t \<and> r \<in> set (ii_addresses ?db u) \<longrightarrow> u = ?t"
    using noii e by auto
  from identifiers_unique_add_subject_identifier[OF w t 1 2]
    keys_ok_add_subject_identifier[OF k' topic_bound[OF k' t]]
  show ?thesis by (simp add: wf_def)
qed

lemma wf_with_item_identifier_new:
  assumes wf: "wf db"
    and noii: "\<forall>u \<in> set (topics db). topic_map u = tm \<longrightarrow> r \<notin> set (ii_addresses db u)"
    and nosi: "\<forall>u \<in> set (topics db). topic_map u = tm \<longrightarrow> r \<notin> set (si_addresses db u)"
  shows "wf (with_item_identifier (snd (save_topic db tm)) tm' \<lparr>pk = topic_seq db, topic_map = tm\<rparr> r)"
proof -
  let ?t = "\<lparr>pk = topic_seq db, topic_map = tm\<rparr>"
  let ?db = "snd (save_topic db tm)"
  from wf have k: "keys_ok db" by (simp add: wf_def)
  have e: "ii_addresses db ?t = []" "si_addresses db ?t = []"
    using new_topic_no_identifiers[OF k, of tm] by (simp_all add: ii_addresses_def si_addresses_def)
  have w: "wf ?db" by (rule wf_save_topic[OF wf])
  then have k': "keys_ok ?db" by (simp add: wf_def)
  have t: "?t \<in> set (topics ?db)" by simp
  have 1: "\<forall>u \<in> set (topics ?db). topic_map u = topic_map ?t \<longrightarrow> r \<notin> set (ii_addresses ?db u)"
    using noii e by auto
  have 2: "\<forall>u \<in> set (topics ?db). topic_map u = topic_map ?t \<and> r \<in> set (si_addresses ?db u) \<longrightarrow> u = ?t"
    using nosi e by auto
  from identifiers_unique_with_item_identifier[OF w t 1 2]
    keys_ok_with_item_identifier[OF k' topic_bound[OF k' t]]
  show ?thesis by (simp add: wf_def)
qed

text \<open>What holds after a call that returned.\<close>

lemma by_si_post:
  assumes wf: "wf db"
  shows "\<exists>t db'. create_topic_by_subject_identifier to_external_form db tm (Some loc) = Inr (t, db') \<and>
      wf db' \<and> t \<in> set (topics db') \<and> topic_map t = tm \<and>
      to_external_form loc \<in> set (si_addresses db' t)"
proof -
  let ?r = "to_external_form loc"
  from wf have k: "keys_ok db" by (simp add: wf_def)
  show ?thesis
  proof (cases "\<exists>t \<in> set (topics db). topic_map t = tm \<and> ?r \<in> set (si_addresses db t)")
    case True
    then obtain t where t: "t \<in> set (topics db)" "topic_map t = tm" "?r \<in> set (si_addresses db t)"
      by blast
    from by_si_found_si[where to_external_form=to_external_form and loc=loc, OF wf t] wf t show ?thesis by blast
  next
    case False
    then have nosi: "\<forall>u \<in> set (topics db). topic_map u = tm \<longrightarrow> ?r \<notin> set (si_addresses db u)"
      by blast
    show ?thesis
    proof (cases "\<exists>t \<in> set (topics db). topic_map t = tm \<and> ?r \<in> set (ii_addresses db t)")
      case True
      then obtain t where t: "t \<in> set (topics db)" "topic_map t = tm" "?r \<in> set (ii_addresses db t)"
        by blast
      from nosi t(2) have nosi': "\<forall>u \<in> set (topics db). topic_map u = topic_map t \<longrightarrow> ?r \<notin> set (si_addresses db u)"
        by simp
      have "wf (add_subject_identifier db t ?r)"
        by (rule wf_add_subject_identifier_owner[OF wf t(1) nosi' t(3)])
      moreover have "?r \<in> set (si_addresses (add_subject_identifier db t ?r) t)"
        by (simp add: si_addresses_add_subject_identifier)
      ultimately show ?thesis
        using by_si_found_ii[where to_external_form=to_external_form and loc=loc, OF wf nosi t] t(1,2) by simp
    next
      case False
      then have noii: "\<forall>u \<in> set (topics db). topic_map u = tm \<longrightarrow> ?r \<notin> set (ii_addresses db u)"
        by blast
      let ?t = "\<lparr>pk = topic_seq db, topic_map = tm\<rparr>"
      have "wf (add_subject_identifier (snd (save_topic db tm)) ?t ?r)"
        by (rule wf_add_subject_identifier_new[OF wf nosi noii])
      moreover have "?r \<in> set (si_addresses (add_subject_identifier (snd (save_topic db tm)) ?t ?r) ?t)"
        by (simp add: si_addresses_add_subject_identifier)
      ultimately show ?thesis
        using by_si_new[where to_external_form=to_external_form and loc=loc, OF nosi noii] by simp
    qed
  qed
qed

lemma by_ii_success:
  assumes wf: "wf db"
    and res: "create_topic_by_item_identifier to_external_form db tm (Some loc) = Inr (t, db')"
  shows "wf db' \<and> t \<in> set (topics db') \<and> topic_map t = tm \<and>
      to_external_form loc \<in> set (ii_addresses db' t) \<and>
      set (topics db') = insert t (set (topics db))"
proof -
  let ?r = "to_external_form loc"
  from wf have k: "keys_ok db" by (simp add: wf_def)
  show ?thesis
  proof (cases "\<exists>t \<in> set (topics db). topic_map t = tm \<and> ?r \<in> set (ii_addresses db t)")
    case True
    then obtain u where u: "u \<in> set (topics db)" "topic_map u = tm" "?r \<in> set (ii_addresses db u)"
      by blast
    from by_ii_found_ii[where to_external_form=to_external_form and loc=loc, OF wf u] res wf u
    show ?thesis by auto
  next
    case False
    then have noii: "\<forall>u \<in> set (topics db). topic_map u = tm \<longrightarrow> ?r \<notin> set (ii_addresses db u)"
      by blast
    show ?thesis
    proof (cases "\<exists>t \<in> set (topics db). topic_map t = tm \<and> ?r \<in> set (si_addresses db t)")
      case True
      then obtain u where u: "u \<in> set (topics db)" "topic_map u = tm" "?r \<in> set (si_addresses db u)"
        by blast
      from noii u(2) have noii': "\<forall>v \<in> set (topics db). topic_map v = topic_map u \<longrightarrow> ?r \<notin> set (ii_addresses db v)"
        by simp
      have "wf (with_item_identifier db tm u ?r)"
        by (rule wf_with_item_identifier_owner[OF wf u(1) noii' u(3)])
      moreover have "?r \<in> set (ii_addresses (with_item_identifier db tm u ?r) u)"
        by (simp add: ii_addresses_with_item_identifier[OF k])
      ultimately show ?thesis
        using by_ii_found_si[where to_external_form=to_external_form and loc=loc, OF wf noii u] u(1,2) res
        by (auto split: if_splits)
    next
      case False
      then have nosi: "\<forall>u \<in> set (topics db). topic_map u = tm \<longrightarrow> ?r \<notin> set (si_addresses db u)"
        by blast
      let ?t = "\<lparr>pk = topic_seq db, topic_map = tm\<rparr>"
      have "wf (with_item_identifier (snd (save_topic db tm)) tm ?t ?r)"
        by (rule wf_with_item_identifier_new[OF wf noii nosi])
      moreover have "?r \<in> set (ii_addresses (with_item_identifier (snd (save_topic db tm)) tm ?t ?r) ?t)"
        by (simp add: ii_addresses_with_item_identifier[OF keys_ok_save_topic[OF k]])
      ultimately show ?thesis
        using by_ii_new[where to_external_form=to_external_form and loc=loc, OF noii nosi] res
        by (auto split: if_splits)
    qed
  qed
qed


lemma item_identifiers_unchanged [simp]:
  "item_identifiers (add_subject_identifier db t r) = item_identifiers db"
  "item_identifiers (snd (save_topic db tm)) = item_identifiers db"
  by (simp_all add: add_subject_identifier_def save_topic_def Let_def)

lemma by_si_topics:
  assumes wf: "wf db"
    and res: "create_topic_by_subject_identifier to_external_form db tm (Some loc) = Inr (t, db')"
  shows "set (topics db') = insert t (set (topics db)) \<and>
      item_identifiers db' = item_identifiers db \<and>
      (\<forall>u \<in> set (topics db). ii_addresses db' u = ii_addresses db u)"
proof -
  let ?r = "to_external_form loc"
  show ?thesis
  proof (cases "\<exists>t \<in> set (topics db). topic_map t = tm \<and> ?r \<in> set (si_addresses db t)")
    case True
    then obtain u where u: "u \<in> set (topics db)" "topic_map u = tm" "?r \<in> set (si_addresses db u)"
      by blast
    from by_si_found_si[where to_external_form=to_external_form and loc=loc, OF wf u] res u
    show ?thesis by auto
  next
    case False
    then have nosi: "\<forall>u \<in> set (topics db). topic_map u = tm \<longrightarrow> ?r \<notin> set (si_addresses db u)"
      by blast
    show ?thesis
    proof (cases "\<exists>t \<in> set (topics db). topic_map t = tm \<and> ?r \<in> set (ii_addresses db t)")
      case True
      then obtain u where u: "u \<in> set (topics db)" "topic_map u = tm" "?r \<in> set (ii_addresses db u)"
        by blast
      from by_si_found_ii[where to_external_form=to_external_form and loc=loc, OF wf nosi u] res u
      show ?thesis by auto
    next
      case False
      then have noii: "\<forall>u \<in> set (topics db). topic_map u = tm \<longrightarrow> ?r \<notin> set (ii_addresses db u)"
        by blast
      from by_si_new[where to_external_form=to_external_form and loc=loc, OF nosi noii] res
      show ?thesis by auto
    qed
  qed
qed

lemma wf_fixtures:
  "wf empty_database" "wf db_item" "wf db_subject" "wf db_association" "wf db_two_maps"
  by (simp_all add: wf_def keys_ok_def identifiers_unique_def empty_database_def db_item_def
     db_subject_def db_association_def db_two_maps_def ii_addresses_def si_addresses_def
     get_item_identifiers_def get_subject_identifiers_def)

lemma fixture_facts:
  "topics db_subject = [\<lparr>pk = 0, topic_map = 5\<rparr>]"
  "topics db_item = [\<lparr>pk = 0, topic_map = 5\<rparr>]"
  "si_addresses db_subject \<lparr>pk = 0, topic_map = 5\<rparr> = [''a'']"
  "ii_addresses db_subject \<lparr>pk = 0, topic_map = 5\<rparr> = []"
  "si_addresses db_item \<lparr>pk = 0, topic_map = 5\<rparr> = []"
  "ii_addresses db_item \<lparr>pk = 0, topic_map = 5\<rparr> = [''a'']"
  "topics db_two_maps = [\<lparr>pk = 0, topic_map = 5\<rparr>, \<lparr>pk = 2, topic_map = 6\<rparr>, \<lparr>pk = 3, topic_map = 6\<rparr>]"
  "si_addresses db_two_maps t = []"
  "ii_addresses db_two_maps t = []"
  by (simp_all add: db_subject_def db_item_def db_two_maps_def empty_database_def
      si_addresses_def ii_addresses_def get_subject_identifiers_def get_item_identifiers_def)

lemma association_fixture_facts:
  "topics db_association = [\<lparr>pk = 0, topic_map = 5\<rparr>]"
  "topic_seq db_association = 1"
  "si_addresses db_association t = []"
  "ii_addresses db_association t = []"
  "association_owns_item_identifier db_association 5 ''a''"
  by (simp_all add: db_association_def empty_database_def si_addresses_def ii_addresses_def
      get_subject_identifiers_def get_item_identifiers_def association_owns_item_identifier_def)

lemma association_subject_facts:
  "wf db_association_subject"
  "topics db_association_subject = [\<lparr>pk = 0, topic_map = 5\<rparr>, \<lparr>pk = 1, topic_map = 5\<rparr>]"
  "ii_addresses db_association_subject t = []"
  "si_addresses db_association_subject \<lparr>pk = 1, topic_map = 5\<rparr> = [''a'']"
  "item_identifier_taken db_association_subject 5 ''a''"
  "item_identifier_taken db_association 5 ''a''"
  "\<not> only_topics_hold db_association 5 ''a''"
  by (simp_all add: db_association_subject_def db_association_def empty_database_def wf_def
      keys_ok_def identifiers_unique_def si_addresses_def ii_addresses_def
      get_subject_identifiers_def get_item_identifiers_def item_identifier_taken_def
      only_topics_hold_def)


lemma index_fixture_facts:
  "\<not> item_identifier_taken db_subject 5 ''a''"
  "\<not> item_identifier_taken db_two_maps 6 ''a''"
  "only_topics_hold db_subject 5 ''a''"
  "only_topics_hold db_item 5 ''a''"
  "item_identifier_taken db_item 5 ''a''"
  by (simp_all add: item_identifier_taken_def only_topics_hold_def db_subject_def db_item_def
      db_two_maps_def empty_database_def ii_addresses_def get_item_identifiers_def)

subsection \<open>What the item identifier factory never reads\<close>

lemma lookups_ignore_associations [simp]:
  "item_identifiers__address (db\<lparr>associations := as, association_item_identifiers := ls\<rparr>) r ts
     = item_identifiers__address db r ts"
  "subject_identifiers__address (db\<lparr>associations := as, association_item_identifiers := ls\<rparr>) r ts
     = subject_identifiers__address db r ts"
  "topic_constructs (db\<lparr>associations := as, association_item_identifiers := ls\<rparr>) tm
     = topic_constructs db tm"
  by (simp_all add: item_identifiers__address_def subject_identifiers__address_def
      get_item_identifiers_def get_subject_identifiers_def topic_constructs_def cong: if_cong)

lemma writes_ignore_associations:
  "add_item_identifier (db\<lparr>associations := as, association_item_identifiers := ls\<rparr>) tm t r
     = map_sum id (\<lambda>d. d\<lparr>associations := as, association_item_identifiers := ls\<rparr>)
         (add_item_identifier db tm t r)"
  "save_topic (db\<lparr>associations := as, association_item_identifiers := ls\<rparr>) tm
     = (fst (save_topic db tm),
        (snd (save_topic db tm))\<lparr>associations := as, association_item_identifiers := ls\<rparr>)"
  by (simp_all add: add_item_identifier_eq with_item_identifier_def item_identifier_taken_def
      save_topic_def Let_def)

lemma by_ii_ignores_associations:
  "create_topic_by_item_identifier to_external_form
      (db\<lparr>associations := as, association_item_identifiers := ls\<rparr>) tm loc
   = map_sum (\<lambda>(e, d). (e, d\<lparr>associations := as, association_item_identifiers := ls\<rparr>))
       (\<lambda>(t, d). (t, d\<lparr>associations := as, association_item_identifiers := ls\<rparr>))
       (create_topic_by_item_identifier to_external_form db tm loc)"
  by (cases loc)
    (auto simp: create_topic_by_item_identifier_def writes_ignore_associations case_prod_unfold
      Let_def split: sum.splits error.splits)

lemma get_Inr_mem: "get xs = Inr x \<Longrightarrow> x \<in> set xs"
  by (cases xs rule: get.cases) simp_all

lemma set_subject_locators__address:
  "set (subject_locators__address db r ts) =
     {t \<in> set ts. r \<in> sl_address ` set (get_subject_locators db t)}"
  by (auto simp: subject_locators__address_def)

lemma mem_get_types:
  "(pk t, pk ty) \<in> set (topic_types db) \<Longrightarrow> ty \<in> set (topics db) \<Longrightarrow> ty \<in> set (get_types db t)"
  by (force simp: get_types_def)

subsection \<open>Every operation keeps the store well-formed\<close>

lemma wf_unrelated_tables:
  "wf (db\<lparr>topic_types := x\<rparr>) = wf db"
  "wf (db\<lparr>roles := rs, role_seq := n\<rparr>) = wf db"
  "wf (db\<lparr>occurrences := os, occurrence_seq := n\<rparr>) = wf db"
  by (simp_all add: wf_def keys_ok_def identifiers_unique_def ii_addresses_def si_addresses_def
      get_item_identifiers_def get_subject_identifiers_def cong: if_cong)

lemma wf_empty_database: "wf empty_database"
  by (rule wf_fixtures(1))

lemma wf_create_topic: "wf db \<Longrightarrow> create_topic db tm = (t, db') \<Longrightarrow> wf db'"
  using wf_save_topic[of db tm] by (auto simp: create_topic_def)

lemma wf_create_topic_by_item_identifier:
  assumes "wf db" "create_topic_by_item_identifier to_external_form db tm loc = Inr (t, db')"
  shows "wf db'"
proof (cases loc)
  case None
  with assms show ?thesis by (simp add: create_topic_by_item_identifier_def)
next
  case (Some l)
  with assms by_ii_success[OF assms(1), of to_external_form tm l t db'] show ?thesis by simp
qed

lemma wf_create_topic_by_subject_identifier:
  assumes "wf db" "create_topic_by_subject_identifier to_external_form db tm loc = Inr (t, db')"
  shows "wf db'"
proof (cases loc)
  case None
  with assms show ?thesis by (simp add: create_topic_by_subject_identifier_def)
next
  case (Some l)
  with assms by_si_post[OF assms(1), of to_external_form tm l] show ?thesis by auto
qed

lemma wf_add_type: "wf db \<Longrightarrow> add_type db t ty = Inr db' \<Longrightarrow> wf db'"
  by (auto simp: add_type_def wf_unrelated_tables split: if_splits)

lemma wf_create_role: "wf db \<Longrightarrow> create_role db a rt p = Inr (r, db') \<Longrightarrow> wf db'"
  by (auto simp: create_role_def Let_def wf_unrelated_tables split: option.splits)

lemma wf_create_occurrence:
  "wf db \<Longrightarrow> create_occurrence to_external_form db t ty v scope dt = (oc, db') \<Longrightarrow> wf db'"
  by (auto simp: create_occurrence_def Let_def wf_unrelated_tables)

section \<open>Typing and roles: the checks that are made and those that are not\<close>

text \<open>
  C5. \<^verbatim>\<open>t.add_type(type)\<close> raises the constraint exception exactly when the topic map
  of \<^verbatim>\<open>type\<close> is not the topic map of \<^verbatim>\<open>t\<close>, and raises nothing else. When the
  topic maps are equal it succeeds: the link from \<^verbatim>\<open>t\<close> to \<^verbatim>\<open>type\<close> is in the
  \<^verbatim>\<open>types\<close> table afterwards, nothing else of the store changes, and \<^verbatim>\<open>type\<close> (a
  topic of the store) is among \<^verbatim>\<open>t.get_types()\<close>.
\<close>

theorem add_type_constraint:
  "(add_type db t ty = Inl ModelConstraintException) = (topic_map ty \<noteq> topic_map t) \<and>
   (\<forall>e. add_type db t ty = Inl e \<longrightarrow> e = ModelConstraintException) \<and>
   (topic_map ty = topic_map t \<longrightarrow>
      (\<exists>db'. add_type db t ty = Inr db' \<and>
         set (topic_types db') = insert (pk t, pk ty) (set (topic_types db)) \<and>
         db'\<lparr>topic_types := topic_types db\<rparr> = db \<and>
         (ty \<in> set (topics db) \<longrightarrow> ty \<in> set (get_types db' t))))"
proof (intro conjI allI impI)
  show "(add_type db t ty = Inl ModelConstraintException) = (topic_map ty \<noteq> topic_map t)"
    by (auto simp: add_type_def)
  show "e = ModelConstraintException" if "add_type db t ty = Inl e" for e
    using that by (auto simp: add_type_def split: if_splits)
  assume same: "topic_map ty = topic_map t"
  let ?db = "db\<lparr>topic_types := m2m_add (topic_types db) (pk t, pk ty)\<rparr>"
  have r: "add_type db t ty = Inr ?db" using same by (simp add: add_type_def)
  have s: "set (topic_types ?db) = insert (pk t, pk ty) (set (topic_types db))"
    by (auto simp: m2m_add_def)
  have g: "ty \<in> set (get_types ?db t)" if "ty \<in> set (topics db)"
    using that s by (intro mem_get_types) simp_all
  from r s g show "\<exists>db'. add_type db t ty = Inr db' \<and>
         set (topic_types db') = insert (pk t, pk ty) (set (topic_types db)) \<and>
         db'\<lparr>topic_types := topic_types db\<rparr> = db \<and>
         (ty \<in> set (topics db) \<longrightarrow> ty \<in> set (get_types db' t))"
    by (intro exI[of _ ?db]) simp
qed

theorem add_type_constraint_witness:
  "add_type db_two_maps \<lparr>pk = 2, topic_map = 6\<rparr> \<lparr>pk = 3, topic_map = 6\<rparr>
     = Inr (db_two_maps\<lparr>topic_types := [(2, 3)]\<rparr>) \<and>
   get_types (db_two_maps\<lparr>topic_types := [(2, 3)]\<rparr>) \<lparr>pk = 2, topic_map = 6\<rparr>
     = [\<lparr>pk = 3, topic_map = 6\<rparr>] \<and>
   add_type db_two_maps \<lparr>pk = 2, topic_map = 6\<rparr> \<lparr>pk = 0, topic_map = 5\<rparr>
     = Inl ModelConstraintException"
  using add_type_constraint [of db_two_maps "\<lparr>pk = 2, topic_map = 6\<rparr>" "\<lparr>pk = 3, topic_map = 6\<rparr>"]
    add_type_constraint [of db_two_maps "\<lparr>pk = 2, topic_map = 6\<rparr>" "\<lparr>pk = 0, topic_map = 5\<rparr>"]
  by (simp add: add_type_def m2m_add_def get_types_def db_two_maps_def empty_database_def)

text \<open>
  C6. \<^verbatim>\<open>a.create_role(role_type, player)\<close> raises the constraint exception exactly
  when \<^verbatim>\<open>role_type\<close> or \<^verbatim>\<open>player\<close> is null, and raises nothing else. For any two
  topics, whatever their topic maps, the call succeeds and stores a role of the
  association with that type and that player, in the topic map of the association.
\<close>

theorem create_role_constraint:
  "(create_role db a rt p = Inl ModelConstraintException) = (rt = None \<or> p = None) \<and>
   (\<forall>e. create_role db a rt p = Inl e \<longrightarrow> e = ModelConstraintException) \<and>
   (\<forall>t u. \<exists>r db'. create_role db a (Some t) (Some u) = Inr (r, db') \<and>
      roles db' = roles db @ [r] \<and> association r = pk a \<and> topic_map r = topic_map a \<and>
      role_type r = pk t \<and> player r = pk u)"
  by (auto simp: create_role_def Let_def split: option.splits)

theorem create_role_constraint_witness:
  "topic_map \<lparr>pk = 2, topic_map = 6\<rparr> \<noteq> topic_map \<lparr>pk = 0, topic_map = 5, association_type = 0\<rparr> \<and>
   (\<exists>r db'. create_role db_two_maps \<lparr>pk = 0, topic_map = 5, association_type = 0\<rparr>
        (Some \<lparr>pk = 2, topic_map = 6\<rparr>) (Some \<lparr>pk = 3, topic_map = 6\<rparr>) = Inr (r, db') \<and>
      roles db' = roles db_two_maps @ [r] \<and> topic_map r = 5 \<and> role_type r = 2 \<and> player r = 3) \<and>
   create_role db_two_maps \<lparr>pk = 0, topic_map = 5, association_type = 0\<rparr>
        None (Some \<lparr>pk = 3, topic_map = 6\<rparr>) = Inl ModelConstraintException \<and>
   create_role db_two_maps \<lparr>pk = 0, topic_map = 5, association_type = 0\<rparr>
        (Some \<lparr>pk = 2, topic_map = 6\<rparr>) None = Inl ModelConstraintException"
  using create_role_constraint [of db_two_maps "\<lparr>pk = 0, topic_map = 5, association_type = 0\<rparr>"
      "Some \<lparr>pk = 2, topic_map = 6\<rparr>" "Some \<lparr>pk = 3, topic_map = 6\<rparr>"]
    create_role_constraint [of db_two_maps "\<lparr>pk = 0, topic_map = 5, association_type = 0\<rparr>"
      None "Some \<lparr>pk = 3, topic_map = 6\<rparr>"]
    create_role_constraint [of db_two_maps "\<lparr>pk = 0, topic_map = 5, association_type = 0\<rparr>"
      "Some \<lparr>pk = 2, topic_map = 6\<rparr>" None]
  by (simp add: create_role_def Let_def)

section \<open>Occurrences and roles played\<close>

text \<open>
  C7. With \<^verbatim>\<open>datatype\<close> omitted, the occurrence that \<^verbatim>\<open>create_occurrence\<close> creates
  carries the datatype xsd:anyURI when the value is a \<^verbatim>\<open>Locator\<close> and xsd:string when
  it is a string; with \<^verbatim>\<open>datatype\<close> given, it carries that datatype (each in its
  external form). The occurrence is stored, for this topic, with the type and the
  value given.
\<close>

theorem create_occurrence_datatype:
  "(\<forall>l. occurrence_datatype
          (fst (create_occurrence to_external_form db t ty (LocatorValue l) scope None))
        = to_external_form (Locator XSD_ANY_URI)) \<and>
   (\<forall>s. occurrence_datatype
          (fst (create_occurrence to_external_form db t ty (StringValue s) scope None))
        = to_external_form (Locator XSD_STRING)) \<and>
   (\<forall>d. occurrence_datatype
          (fst (create_occurrence to_external_form db t ty v scope (Some d)))
        = to_external_form d) \<and>
   occurrences (snd (create_occurrence to_external_form db t ty v scope dt))
     = occurrences db @ [fst (create_occurrence to_external_form db t ty v scope dt)] \<and>
   occurrence_topic (fst (create_occurrence to_external_form db t ty v scope dt)) = pk t \<and>
   occurrence_type (fst (create_occurrence to_external_form db t ty v scope dt)) = pk ty \<and>
   occurrence_value (fst (create_occurrence to_external_form db t ty v scope dt)) = v"
  by (simp add: create_occurrence_def Let_def)

theorem create_occurrence_datatype_witness:
  "occurrence_datatype (fst (create_occurrence get_reference db_two_maps
       \<lparr>pk = 2, topic_map = 6\<rparr> \<lparr>pk = 3, topic_map = 6\<rparr>
       (LocatorValue (Locator ''http://www.example.org/'')) None None))
     = ''http://www.w3.org/2001/XMLSchema#anyURI'' \<and>
   occurrence_datatype (fst (create_occurrence get_reference db_two_maps
       \<lparr>pk = 2, topic_map = 6\<rparr> \<lparr>pk = 3, topic_map = 6\<rparr>
       (StringValue ''text'') None None))
     = ''http://www.w3.org/2001/XMLSchema#string'' \<and>
   occurrence_datatype (fst (create_occurrence get_reference db_two_maps
       \<lparr>pk = 2, topic_map = 6\<rparr> \<lparr>pk = 3, topic_map = 6\<rparr>
       (StringValue ''text'') None (Some (Locator ''http://www.example.org/datatype''))))
     = ''http://www.example.org/datatype''"
  using create_occurrence_datatype [of get_reference db_two_maps
      "\<lparr>pk = 2, topic_map = 6\<rparr>" "\<lparr>pk = 3, topic_map = 6\<rparr>" None "StringValue ''text''" None]
  by (simp add: XSD_ANY_URI_def XSD_STRING_def)

text \<open>
  C8. \<^verbatim>\<open>t.get_roles_played(None, association_type)\<close> with a non-null association type
  raises: the call returns no roles. The source raises a plain \<^verbatim>\<open>Exception\<close> with a
  fixed message.
\<close>

theorem get_roles_played_association_type_alone:
  "get_roles_played db t None (Some association_type') =
     Inl (Exception ''This is a broken call to get_roles_played, specifying an assocation type but not a role type'') \<and>
   (\<forall>rs. get_roles_played db t None (Some association_type') \<noteq> Inr rs)"
  by (simp add: get_roles_played_def)

theorem get_roles_played_association_type_alone_witness:
  "get_roles_played db_two_maps \<lparr>pk = 0, topic_map = 5\<rparr> None (Some \<lparr>pk = 0, topic_map = 5\<rparr>) =
     Inl (Exception ''This is a broken call to get_roles_played, specifying an assocation type but not a role type'')"
  using get_roles_played_association_type_alone
    [of db_two_maps "\<lparr>pk = 0, topic_map = 5\<rparr>" "\<lparr>pk = 0, topic_map = 5\<rparr>"]
  by simp

text \<open>
  C9. With a non-null role type, \<^verbatim>\<open>get_roles_played\<close> returns the same roles whether
  an association type is given or not.
\<close>

theorem get_roles_played_association_type_unused:
  "get_roles_played db t (Some role_type') (Some association_type') =
   get_roles_played db t (Some role_type') None"
  by (simp add: get_roles_played_def)

theorem get_roles_played_association_type_unused_witness:
  "get_roles_played db_two_maps \<lparr>pk = 0, topic_map = 5\<rparr>
     (Some \<lparr>pk = 2, topic_map = 6\<rparr>) (Some \<lparr>pk = 3, topic_map = 6\<rparr>)
   = Inr [\<lparr>pk = 0, topic_map = 5, association = 0, role_type = 2, player = 0\<rparr>]"
  using get_roles_played_association_type_unused
    [of db_two_maps "\<lparr>pk = 0, topic_map = 5\<rparr>" "\<lparr>pk = 2, topic_map = 6\<rparr>" "\<lparr>pk = 3, topic_map = 6\<rparr>"]
  by (simp add: get_roles_played_def role_players_def db_two_maps_def empty_database_def)

section \<open>Finding or creating a topic by an identifier\<close>

text \<open>
  C1. On a well-formed store, \<^verbatim>\<open>create_topic_by_subject_identifier(loc)\<close> raises the
  constraint exception when \<open>loc\<close> is null. Otherwise, with \<open>r\<close> the external form of
  \<open>loc\<close>: if a topic of the topic map owns \<open>r\<close> as a subject identifier, that topic is
  returned and the store is unchanged; else, if a topic of the topic map owns \<open>r\<close> as
  an item identifier, that topic is returned, \<open>r\<close> has become one more subject
  identifier of it, and no topic is added; else a topic that was not in the store is
  added to the topic map and returned, with \<open>r\<close> as its only subject identifier.
\<close>

theorem create_topic_by_subject_identifier_cases:
  assumes wf: "wf db"
  shows "create_topic_by_subject_identifier to_external_form db tm None = Inl ModelConstraintException \<and>
   (\<forall>t \<in> set (topics db).
      topic_map t = tm \<and> to_external_form loc \<in> set (si_addresses db t) \<longrightarrow>
      create_topic_by_subject_identifier to_external_form db tm (Some loc) = Inr (t, db)) \<and>
   ((\<forall>u \<in> set (topics db). topic_map u = tm \<longrightarrow> to_external_form loc \<notin> set (si_addresses db u)) \<longrightarrow>
    (\<forall>t \<in> set (topics db).
       topic_map t = tm \<and> to_external_form loc \<in> set (ii_addresses db t) \<longrightarrow>
       (\<exists>db'. create_topic_by_subject_identifier to_external_form db tm (Some loc) = Inr (t, db') \<and>
          topics db' = topics db \<and>
          si_addresses db' t = si_addresses db t @ [to_external_form loc] \<and>
          (\<forall>u \<in> set (topics db). u \<noteq> t \<longrightarrow> si_addresses db' u = si_addresses db u) \<and>
          (\<forall>u. ii_addresses db' u = ii_addresses db u)))) \<and>
   ((\<forall>u \<in> set (topics db). topic_map u = tm \<longrightarrow>
        to_external_form loc \<notin> set (si_addresses db u) \<and>
        to_external_form loc \<notin> set (ii_addresses db u)) \<longrightarrow>
    (\<exists>t db'. create_topic_by_subject_identifier to_external_form db tm (Some loc) = Inr (t, db') \<and>
       t \<notin> set (topics db) \<and> topics db' = topics db @ [t] \<and> topic_map t = tm \<and>
       si_addresses db' t = [to_external_form loc] \<and> ii_addresses db' t = [] \<and>
       (\<forall>u \<in> set (topics db).
          si_addresses db' u = si_addresses db u \<and> ii_addresses db' u = ii_addresses db u)))"
proof (intro conjI ballI impI)
  let ?r = "to_external_form loc"
  from wf have k: "keys_ok db" by (simp add: wf_def)
  show "create_topic_by_subject_identifier to_external_form db tm None = Inl ModelConstraintException"
    by (simp add: create_topic_by_subject_identifier_def)
  {
    fix t assume "t \<in> set (topics db)" "topic_map t = tm \<and> ?r \<in> set (si_addresses db t)"
    then show "create_topic_by_subject_identifier to_external_form db tm (Some loc) = Inr (t, db)"
      using by_si_found_si[where to_external_form=to_external_form and loc=loc, OF wf] by blast
  }
  {
    fix t
    assume nosi: "\<forall>u \<in> set (topics db). topic_map u = tm \<longrightarrow> ?r \<notin> set (si_addresses db u)"
      and t: "t \<in> set (topics db)" and t': "topic_map t = tm \<and> ?r \<in> set (ii_addresses db t)"
    have other: "\<forall>u \<in> set (topics db). u \<noteq> t \<longrightarrow>
        si_addresses (add_subject_identifier db t ?r) u = si_addresses db u"
      using pk_inj[OF k _ t] by (auto simp: si_addresses_add_subject_identifier)
    show "\<exists>db'. create_topic_by_subject_identifier to_external_form db tm (Some loc) = Inr (t, db') \<and>
          topics db' = topics db \<and>
          si_addresses db' t = si_addresses db t @ [?r] \<and>
          (\<forall>u \<in> set (topics db). u \<noteq> t \<longrightarrow> si_addresses db' u = si_addresses db u) \<and>
          (\<forall>u. ii_addresses db' u = ii_addresses db u)"
      using by_si_found_ii[where to_external_form=to_external_form and loc=loc, OF wf nosi t] t' other
      by (simp add: si_addresses_add_subject_identifier)
  }
  {
    assume no: "\<forall>u \<in> set (topics db). topic_map u = tm \<longrightarrow>
        ?r \<notin> set (si_addresses db u) \<and> ?r \<notin> set (ii_addresses db u)"
    let ?t = "\<lparr>pk = topic_seq db, topic_map = tm\<rparr>"
    let ?db = "add_subject_identifier (snd (save_topic db tm)) ?t ?r"
    from no have nosi: "\<forall>u \<in> set (topics db). topic_map u = tm \<longrightarrow> ?r \<notin> set (si_addresses db u)"
      and noii: "\<forall>u \<in> set (topics db). topic_map u = tm \<longrightarrow> ?r \<notin> set (ii_addresses db u)"
      by blast+
    have e: "ii_addresses db ?t = []" "si_addresses db ?t = []"
      using new_topic_no_identifiers[OF k, of tm] by (simp_all add: ii_addresses_def si_addresses_def)
    have old: "\<forall>u \<in> set (topics db). si_addresses ?db u = si_addresses db u"
      using topic_bound[OF k] by (fastforce simp: si_addresses_add_subject_identifier)
    show "\<exists>t db'. create_topic_by_subject_identifier to_external_form db tm (Some loc) = Inr (t, db') \<and>
       t \<notin> set (topics db) \<and> topics db' = topics db @ [t] \<and> topic_map t = tm \<and>
       si_addresses db' t = [?r] \<and> ii_addresses db' t = [] \<and>
       (\<forall>u \<in> set (topics db).
          si_addresses db' u = si_addresses db u \<and> ii_addresses db' u = ii_addresses db u)"
      using by_si_new[where to_external_form=to_external_form and loc=loc, OF nosi noii]
        new_topic_fresh[OF k, of tm] e old
      by (simp add: si_addresses_add_subject_identifier)
  }
qed

theorem create_topic_by_subject_identifier_cases_witness:
  "create_topic_by_subject_identifier get_reference db_subject 5 (Some (Locator ''a''))
     = Inr (\<lparr>pk = 0, topic_map = 5\<rparr>, db_subject) \<and>
   (\<exists>db'. create_topic_by_subject_identifier get_reference db_item 5 (Some (Locator ''a''))
       = Inr (\<lparr>pk = 0, topic_map = 5\<rparr>, db') \<and>
      topics db' = [\<lparr>pk = 0, topic_map = 5\<rparr>] \<and>
      si_addresses db' \<lparr>pk = 0, topic_map = 5\<rparr> = [''a'']) \<and>
   (\<exists>t db'. create_topic_by_subject_identifier get_reference db_two_maps 6 (Some (Locator ''a''))
       = Inr (t, db') \<and> t \<notin> set (topics db_two_maps) \<and> topic_map t = 6 \<and>
       si_addresses db' t = [''a''])"
proof (intro conjI)
  show "create_topic_by_subject_identifier get_reference db_subject 5 (Some (Locator ''a''))
     = Inr (\<lparr>pk = 0, topic_map = 5\<rparr>, db_subject)"
    using create_topic_by_subject_identifier_cases
      [OF wf_fixtures(3), of get_reference 5 "Locator ''a''"]
    by (simp add: fixture_facts)
  show "\<exists>db'. create_topic_by_subject_identifier get_reference db_item 5 (Some (Locator ''a''))
       = Inr (\<lparr>pk = 0, topic_map = 5\<rparr>, db') \<and>
      topics db' = [\<lparr>pk = 0, topic_map = 5\<rparr>] \<and>
      si_addresses db' \<lparr>pk = 0, topic_map = 5\<rparr> = [''a'']"
    using create_topic_by_subject_identifier_cases
      [OF wf_fixtures(2), of get_reference 5 "Locator ''a''"]
    by (simp add: fixture_facts) blast
  show "\<exists>t db'. create_topic_by_subject_identifier get_reference db_two_maps 6 (Some (Locator ''a''))
       = Inr (t, db') \<and> t \<notin> set (topics db_two_maps) \<and> topic_map t = 6 \<and>
       si_addresses db' t = [''a'']"
    using create_topic_by_subject_identifier_cases
      [OF wf_fixtures(5), of get_reference 6 "Locator ''a''"]
    by (simp add: fixture_facts) blast
qed

text \<open>
  C3. On a well-formed store and for a non-null locator, two calls of
  \<^verbatim>\<open>create_topic_by_subject_identifier\<close> in succession both return, with the same
  topic. After the first call that topic is in the store, in the topic map, and owns
  the address as a subject identifier; it is the only topic the call may have added.
  The second call finds it and leaves the store as the first one left it.
\<close>

theorem create_topic_by_subject_identifier_twice:
  assumes wf: "wf db"
  shows "\<exists>t db'.
     create_topic_by_subject_identifier to_external_form db tm (Some loc) = Inr (t, db') \<and>
     t \<in> set (topics db') \<and> topic_map t = tm \<and>
     to_external_form loc \<in> set (si_addresses db' t) \<and>
     set (topics db') = insert t (set (topics db)) \<and>
     create_topic_by_subject_identifier to_external_form db' tm (Some loc) = Inr (t, db')"
proof -
  from by_si_post[OF wf, of to_external_form tm loc] obtain t db' where
    r: "create_topic_by_subject_identifier to_external_form db tm (Some loc) = Inr (t, db')"
    and p: "wf db'" "t \<in> set (topics db')" "topic_map t = tm"
      "to_external_form loc \<in> set (si_addresses db' t)"
    by blast
  from by_si_topics[OF wf r] have s: "set (topics db') = insert t (set (topics db))" by simp
  from by_si_found_si[where to_external_form=to_external_form and loc=loc, OF p] r p s
  show ?thesis by blast
qed

theorem create_topic_by_subject_identifier_twice_witness:
  "(\<exists>db'.
      create_topic_by_subject_identifier get_reference db_item 5 (Some (Locator ''a''))
        = Inr (\<lparr>pk = 0, topic_map = 5\<rparr>, db') \<and>
      topics db' = [\<lparr>pk = 0, topic_map = 5\<rparr>] \<and>
      si_addresses db' \<lparr>pk = 0, topic_map = 5\<rparr> = [''a''] \<and>
      create_topic_by_subject_identifier get_reference db' 5 (Some (Locator ''a''))
        = Inr (\<lparr>pk = 0, topic_map = 5\<rparr>, db')) \<and>
   (\<exists>db'.
      create_topic_by_subject_identifier get_reference db_two_maps 6 (Some (Locator ''a''))
        = Inr (\<lparr>pk = 4, topic_map = 6\<rparr>, db') \<and>
      \<lparr>pk = 4, topic_map = 6\<rparr> \<in> set (topics db') \<and>
      si_addresses db' \<lparr>pk = 4, topic_map = 6\<rparr> = [''a''] \<and>
      create_topic_by_subject_identifier get_reference db' 6 (Some (Locator ''a''))
        = Inr (\<lparr>pk = 4, topic_map = 6\<rparr>, db'))"
proof
  let ?t = "\<lparr>pk = 0, topic_map = 5\<rparr>"
  let ?db = "add_subject_identifier db_item ?t ''a''"
  have first: "create_topic_by_subject_identifier get_reference db_item 5 (Some (Locator ''a''))
      = Inr (?t, ?db)"
    using by_si_found_ii[where to_external_form=get_reference and loc="Locator ''a''", OF wf_fixtures(2),
        of 5 ?t]
    by (simp add: fixture_facts)
  have facts: "topics ?db = [?t]" "si_addresses ?db ?t = [''a'']"
    by (simp_all add: fixture_facts si_addresses_add_subject_identifier)
  from create_topic_by_subject_identifier_twice [OF wf_fixtures(2), of get_reference 5 "Locator ''a''"]
    first
  have "create_topic_by_subject_identifier get_reference ?db 5 (Some (Locator ''a'')) = Inr (?t, ?db)"
    by auto
  with first facts show "\<exists>db'.
      create_topic_by_subject_identifier get_reference db_item 5 (Some (Locator ''a''))
        = Inr (?t, db') \<and>
      topics db' = [?t] \<and> si_addresses db' ?t = [''a''] \<and>
      create_topic_by_subject_identifier get_reference db' 5 (Some (Locator ''a'')) = Inr (?t, db')"
    by blast
next
  let ?t = "\<lparr>pk = 4, topic_map = 6\<rparr>"
  let ?db = "add_subject_identifier (snd (save_topic db_two_maps 6)) ?t ''a''"
  have seq: "topic_seq db_two_maps = 4" by (simp add: db_two_maps_def empty_database_def)
  have first: "create_topic_by_subject_identifier get_reference db_two_maps 6 (Some (Locator ''a''))
      = Inr (?t, ?db)"
    using by_si_new[where to_external_form=get_reference and loc="Locator ''a''", of db_two_maps 6]
    by (simp add: fixture_facts seq)
  have facts: "?t \<in> set (topics ?db)" "si_addresses ?db ?t = [''a'']"
    by (simp_all add: fixture_facts seq si_addresses_add_subject_identifier)
  from create_topic_by_subject_identifier_twice [OF wf_fixtures(5), of get_reference 6 "Locator ''a''"]
    first
  have "create_topic_by_subject_identifier get_reference ?db 6 (Some (Locator ''a'')) = Inr (?t, ?db)"
    by auto
  with first facts show "\<exists>db'.
      create_topic_by_subject_identifier get_reference db_two_maps 6 (Some (Locator ''a''))
        = Inr (?t, db') \<and>
      ?t \<in> set (topics db') \<and> si_addresses db' ?t = [''a''] \<and>
      create_topic_by_subject_identifier get_reference db' 6 (Some (Locator ''a'')) = Inr (?t, db')"
    by blast
qed




text \<open>
  C2, as stated, fails: \<^verbatim>\<open>create_topic_by_item_identifier\<close> makes no check of
  non-topic constructs before its other steps. In a well-formed store where an
  association of the topic map owns \<open>a\<close> as an item identifier and no topic does, the
  method looks among the topics, finds none, and saves a new topic; only then is the
  item identifier row refused, by the store. When the exception leaves the method the
  store holds the new topic 1.
\<close>

theorem item_identifier_of_association_counterexample:
  "wf db_association \<and>
   association_owns_item_identifier db_association 5 ''a'' \<and>
   topics db_association = [\<lparr>pk = 0, topic_map = 5\<rparr>] \<and>
   create_topic_by_item_identifier get_reference db_association 5 (Some (Locator ''a''))
     = Inl (IntegrityError,
            db_association\<lparr>topics := [\<lparr>pk = 0, topic_map = 5\<rparr>, \<lparr>pk = 1, topic_map = 5\<rparr>],
                            topic_seq := 2\<rparr>)"
proof (intro conjI)
  show "wf db_association" by (rule wf_fixtures(4))
  show "association_owns_item_identifier db_association 5 ''a''"
    by (rule association_fixture_facts(5))
  show "topics db_association = [\<lparr>pk = 0, topic_map = 5\<rparr>]"
    by (rule association_fixture_facts(1))
  show "create_topic_by_item_identifier get_reference db_association 5 (Some (Locator ''a''))
     = Inl (IntegrityError,
            db_association\<lparr>topics := [\<lparr>pk = 0, topic_map = 5\<rparr>, \<lparr>pk = 1, topic_map = 5\<rparr>],
                            topic_seq := 2\<rparr>)"
    using by_ii_new[where to_external_form=get_reference and loc="Locator ''a''", of db_association 5]
    by (simp add: association_fixture_facts association_subject_facts)
       (simp add: db_association_def empty_database_def save_topic_def Let_def)
qed

text \<open>
  C2, amended. On a well-formed store, \<^verbatim>\<open>create_topic_by_item_identifier(loc)\<close>
  raises the constraint exception when \<open>loc\<close> is null. Otherwise, with \<open>r\<close> the
  external form of \<open>loc\<close>: if a topic of the topic map owns \<open>r\<close> as an item
  identifier, that topic is returned and the store is unchanged. Else, when the topic
  map has no item identifier row for \<open>r\<close>: if a topic of the topic map owns \<open>r\<close> as a
  subject identifier, that topic is returned and \<open>r\<close> has become one more item
  identifier of it; if none does, a topic that was not in the store is added and
  returned, with \<open>r\<close> as its only item identifier. The method itself never reads the
  associations and their link table: with any other content of these two tables the
  outcome is the same. What happens when another construct holds \<open>r\<close> is not part of
  this statement.
\<close>

theorem create_topic_by_item_identifier_cases:
  assumes wf: "wf db"
  shows "create_topic_by_item_identifier to_external_form db tm None
       = Inl (ModelConstraintException, db) \<and>
   (\<forall>t \<in> set (topics db).
      topic_map t = tm \<and> to_external_form loc \<in> set (ii_addresses db t) \<longrightarrow>
      create_topic_by_item_identifier to_external_form db tm (Some loc) = Inr (t, db)) \<and>
   ((\<forall>u \<in> set (topics db). topic_map u = tm \<longrightarrow> to_external_form loc \<notin> set (ii_addresses db u)) \<and>
    \<not> item_identifier_taken db tm (to_external_form loc) \<longrightarrow>
    (\<forall>t \<in> set (topics db).
       topic_map t = tm \<and> to_external_form loc \<in> set (si_addresses db t) \<longrightarrow>
       (\<exists>db'. create_topic_by_item_identifier to_external_form db tm (Some loc) = Inr (t, db') \<and>
          topics db' = topics db \<and>
          ii_addresses db' t = ii_addresses db t @ [to_external_form loc] \<and>
          (\<forall>u \<in> set (topics db). u \<noteq> t \<longrightarrow> ii_addresses db' u = ii_addresses db u) \<and>
          (\<forall>u. si_addresses db' u = si_addresses db u)))) \<and>
   ((\<forall>u \<in> set (topics db). topic_map u = tm \<longrightarrow>
        to_external_form loc \<notin> set (ii_addresses db u) \<and>
        to_external_form loc \<notin> set (si_addresses db u)) \<and>
    \<not> item_identifier_taken db tm (to_external_form loc) \<longrightarrow>
    (\<exists>t db'. create_topic_by_item_identifier to_external_form db tm (Some loc) = Inr (t, db') \<and>
       t \<notin> set (topics db) \<and> topics db' = topics db @ [t] \<and> topic_map t = tm \<and>
       ii_addresses db' t = [to_external_form loc] \<and> si_addresses db' t = [] \<and>
       (\<forall>u \<in> set (topics db).
          ii_addresses db' u = ii_addresses db u \<and> si_addresses db' u = si_addresses db u))) \<and>
   (\<forall>as ls. create_topic_by_item_identifier to_external_form
        (db\<lparr>associations := as, association_item_identifiers := ls\<rparr>) tm (Some loc)
      = map_sum (\<lambda>(e, d). (e, d\<lparr>associations := as, association_item_identifiers := ls\<rparr>))
          (\<lambda>(t, d). (t, d\<lparr>associations := as, association_item_identifiers := ls\<rparr>))
          (create_topic_by_item_identifier to_external_form db tm (Some loc)))"
proof (intro conjI ballI impI allI)
  let ?r = "to_external_form loc"
  from wf have k: "keys_ok db" by (simp add: wf_def)
  show "create_topic_by_item_identifier to_external_form db tm None
       = Inl (ModelConstraintException, db)"
    by (simp add: create_topic_by_item_identifier_def)
  {
    fix t assume "t \<in> set (topics db)" "topic_map t = tm \<and> ?r \<in> set (ii_addresses db t)"
    then show "create_topic_by_item_identifier to_external_form db tm (Some loc) = Inr (t, db)"
      using by_ii_found_ii[where to_external_form=to_external_form and loc=loc, OF wf] by blast
  }
  {
    fix t
    assume h: "(\<forall>u \<in> set (topics db). topic_map u = tm \<longrightarrow> ?r \<notin> set (ii_addresses db u)) \<and>
        \<not> item_identifier_taken db tm ?r"
      and t: "t \<in> set (topics db)" and t': "topic_map t = tm \<and> ?r \<in> set (si_addresses db t)"
    from h have noii: "\<forall>u \<in> set (topics db). topic_map u = tm \<longrightarrow> ?r \<notin> set (ii_addresses db u)"
      and free: "\<not> item_identifier_taken db tm ?r" by blast+
    have other: "\<forall>u \<in> set (topics db). u \<noteq> t \<longrightarrow>
        ii_addresses (with_item_identifier db tm t ?r) u = ii_addresses db u"
      using pk_inj[OF k _ t] by (auto simp: ii_addresses_with_item_identifier[OF k])
    show "\<exists>db'. create_topic_by_item_identifier to_external_form db tm (Some loc) = Inr (t, db') \<and>
          topics db' = topics db \<and>
          ii_addresses db' t = ii_addresses db t @ [?r] \<and>
          (\<forall>u \<in> set (topics db). u \<noteq> t \<longrightarrow> ii_addresses db' u = ii_addresses db u) \<and>
          (\<forall>u. si_addresses db' u = si_addresses db u)"
      using by_ii_found_si[where to_external_form=to_external_form and loc=loc, OF wf noii t]
        t' other free
      by (simp add: ii_addresses_with_item_identifier[OF k])
  }
  {
    assume h: "(\<forall>u \<in> set (topics db). topic_map u = tm \<longrightarrow>
        ?r \<notin> set (ii_addresses db u) \<and> ?r \<notin> set (si_addresses db u)) \<and>
        \<not> item_identifier_taken db tm ?r"
    let ?t = "\<lparr>pk = topic_seq db, topic_map = tm\<rparr>"
    let ?db = "with_item_identifier (snd (save_topic db tm)) tm ?t ?r"
    from h have nosi: "\<forall>u \<in> set (topics db). topic_map u = tm \<longrightarrow> ?r \<notin> set (si_addresses db u)"
      and noii: "\<forall>u \<in> set (topics db). topic_map u = tm \<longrightarrow> ?r \<notin> set (ii_addresses db u)"
      and free: "\<not> item_identifier_taken db tm ?r"
      by blast+
    note k' = keys_ok_save_topic[OF k, of tm]
    have e: "ii_addresses db ?t = []" "si_addresses db ?t = []"
      using new_topic_no_identifiers[OF k, of tm] by (simp_all add: ii_addresses_def si_addresses_def)
    have old: "\<forall>u \<in> set (topics db). ii_addresses ?db u = ii_addresses db u"
      using topic_bound[OF k] by (fastforce simp: ii_addresses_with_item_identifier[OF k'])
    show "\<exists>t db'. create_topic_by_item_identifier to_external_form db tm (Some loc) = Inr (t, db') \<and>
       t \<notin> set (topics db) \<and> topics db' = topics db @ [t] \<and> topic_map t = tm \<and>
       ii_addresses db' t = [?r] \<and> si_addresses db' t = [] \<and>
       (\<forall>u \<in> set (topics db).
          ii_addresses db' u = ii_addresses db u \<and> si_addresses db' u = si_addresses db u)"
      using by_ii_new[where to_external_form=to_external_form and loc=loc, OF noii nosi]
        new_topic_fresh[OF k, of tm] e old free
      by (simp add: ii_addresses_with_item_identifier[OF k'])
  }
  {
    fix as ls
    show "create_topic_by_item_identifier to_external_form
        (db\<lparr>associations := as, association_item_identifiers := ls\<rparr>) tm (Some loc)
      = map_sum (\<lambda>(e, d). (e, d\<lparr>associations := as, association_item_identifiers := ls\<rparr>))
          (\<lambda>(t, d). (t, d\<lparr>associations := as, association_item_identifiers := ls\<rparr>))
          (create_topic_by_item_identifier to_external_form db tm (Some loc))"
      by (rule by_ii_ignores_associations)
  }
qed

theorem create_topic_by_item_identifier_cases_witness:
  "create_topic_by_item_identifier get_reference db_item 5 (Some (Locator ''a''))
     = Inr (\<lparr>pk = 0, topic_map = 5\<rparr>, db_item) \<and>
   (\<exists>db'. create_topic_by_item_identifier get_reference db_subject 5 (Some (Locator ''a''))
       = Inr (\<lparr>pk = 0, topic_map = 5\<rparr>, db') \<and>
      topics db' = [\<lparr>pk = 0, topic_map = 5\<rparr>] \<and>
      ii_addresses db' \<lparr>pk = 0, topic_map = 5\<rparr> = [''a'']) \<and>
   (\<exists>t db'. create_topic_by_item_identifier get_reference db_two_maps 6 (Some (Locator ''a''))
       = Inr (t, db') \<and> t \<notin> set (topics db_two_maps) \<and> topic_map t = 6 \<and>
       ii_addresses db' t = [''a''])"
proof (intro conjI)
  show "create_topic_by_item_identifier get_reference db_item 5 (Some (Locator ''a''))
     = Inr (\<lparr>pk = 0, topic_map = 5\<rparr>, db_item)"
    using create_topic_by_item_identifier_cases
      [OF wf_fixtures(2), of get_reference 5 "Locator ''a''"]
    by (simp add: fixture_facts)
  show "\<exists>db'. create_topic_by_item_identifier get_reference db_subject 5 (Some (Locator ''a''))
       = Inr (\<lparr>pk = 0, topic_map = 5\<rparr>, db') \<and>
      topics db' = [\<lparr>pk = 0, topic_map = 5\<rparr>] \<and>
      ii_addresses db' \<lparr>pk = 0, topic_map = 5\<rparr> = [''a'']"
    using create_topic_by_item_identifier_cases
      [OF wf_fixtures(3), of get_reference 5 "Locator ''a''"]
    by (simp add: fixture_facts index_fixture_facts) blast
  show "\<exists>t db'. create_topic_by_item_identifier get_reference db_two_maps 6 (Some (Locator ''a''))
       = Inr (t, db') \<and> t \<notin> set (topics db_two_maps) \<and> topic_map t = 6 \<and>
       ii_addresses db' t = [''a'']"
    using create_topic_by_item_identifier_cases
      [OF wf_fixtures(5), of get_reference 6 "Locator ''a''"]
    by (simp add: fixture_facts index_fixture_facts) blast
qed

section \<open>A topic created without any identifier\<close>

text \<open>
  C10. When the keys of the store are in order, \<^verbatim>\<open>create_topic\<close> returns a topic
  that was not in the store; the identifier tables are as before; the new topic has no
  item identifier, no subject identifier and no subject locator; no query by the
  address of an identifier returns it, and neither \<^verbatim>\<open>get_topic_by_subject_identifier\<close>
  nor \<^verbatim>\<open>get_topic_by_subject_locator\<close> does.
\<close>

theorem create_topic_without_identifiers:
  assumes k: "keys_ok db"
  shows "\<exists>t db'. create_topic db tm = (t, db') \<and>
     t \<notin> set (topics db) \<and> topics db' = topics db @ [t] \<and> topic_map t = tm \<and>
     item_identifiers db' = item_identifiers db \<and>
     topic_item_identifiers db' = topic_item_identifiers db \<and>
     subject_identifiers db' = subject_identifiers db \<and>
     subject_locators db' = subject_locators db \<and>
     get_item_identifiers db' t = [] \<and>
     get_subject_identifiers db' t = [] \<and>
     get_subject_locators db' t = [] \<and>
     (\<forall>r ts. t \<notin> set (item_identifiers__address db' r ts) \<and>
             t \<notin> set (subject_identifiers__address db' r ts) \<and>
             t \<notin> set (subject_locators__address db' r ts)) \<and>
     (\<forall>to_external_form tm' loc.
        get_topic_by_subject_identifier to_external_form db' tm' loc \<noteq> Inr (Some t) \<and>
        get_topic_by_subject_locator to_external_form db' tm' loc \<noteq> Inr (Some t))"
proof -
  let ?t = "\<lparr>pk = topic_seq db, topic_map = tm\<rparr>"
  let ?db = "snd (save_topic db tm)"
  have c: "create_topic db tm = (?t, ?db)"
    by (simp add: create_topic_def save_topic_def Let_def)
  have tabs: "item_identifiers ?db = item_identifiers db"
    "topic_item_identifiers ?db = topic_item_identifiers db"
    "subject_identifiers ?db = subject_identifiers db"
    "subject_locators ?db = subject_locators db"
    by (simp_all add: save_topic_def Let_def)
  have e: "get_item_identifiers ?db ?t = []" "get_subject_identifiers ?db ?t = []"
    "get_subject_locators ?db ?t = []"
    using new_topic_no_identifiers[OF k, of tm] by simp_all
  have q: "?t \<notin> set (item_identifiers__address ?db r ts) \<and>
           ?t \<notin> set (subject_identifiers__address ?db r ts) \<and>
           ?t \<notin> set (subject_locators__address ?db r ts)" for r ts
    using e
    by (simp add: set_item_identifiers__address set_subject_identifiers__address
        set_subject_locators__address ii_addresses_def si_addresses_def)
  have g: "get_topic_by_subject_identifier to_external_form ?db tm' loc \<noteq> Inr (Some ?t) \<and>
           get_topic_by_subject_locator to_external_form ?db tm' loc \<noteq> Inr (Some ?t)"
    for to_external_form tm' loc
  proof
    show "get_topic_by_subject_identifier to_external_form ?db tm' loc \<noteq> Inr (Some ?t)"
    proof
      assume "get_topic_by_subject_identifier to_external_form ?db tm' loc = Inr (Some ?t)"
      then have "get (subject_identifiers__address ?db (to_external_form loc)
          (topic_constructs ?db tm')) = Inr ?t"
        by (auto simp: get_topic_by_subject_identifier_def Let_def split: sum.splits error.splits)
      from get_Inr_mem[OF this] q show False by blast
    qed
    show "get_topic_by_subject_locator to_external_form ?db tm' loc \<noteq> Inr (Some ?t)"
    proof
      assume "get_topic_by_subject_locator to_external_form ?db tm' loc = Inr (Some ?t)"
      then have "get (subject_locators__address ?db (to_external_form loc)
          (topic_constructs ?db tm')) = Inr ?t"
        by (auto simp: get_topic_by_subject_locator_def Let_def split: sum.splits error.splits)
      from get_Inr_mem[OF this] q show False by blast
    qed
  qed
  from c new_topic_fresh[OF k, of tm] tabs e q g show ?thesis
    by (intro exI[of _ ?t] exI[of _ ?db]) simp
qed

theorem create_topic_without_identifiers_witness:
  "fst (create_topic db_item 5) = \<lparr>pk = 1, topic_map = 5\<rparr> \<and>
   get_item_identifiers (snd (create_topic db_item 5)) \<lparr>pk = 1, topic_map = 5\<rparr> = [] \<and>
   get_subject_identifiers (snd (create_topic db_item 5)) \<lparr>pk = 1, topic_map = 5\<rparr> = [] \<and>
   get_subject_locators (snd (create_topic db_item 5)) \<lparr>pk = 1, topic_map = 5\<rparr> = [] \<and>
   item_identifiers (snd (create_topic db_item 5)) = item_identifiers db_item"
proof -
  have k: "keys_ok db_item" using wf_fixtures(2) by (simp add: wf_def)
  have "fst (create_topic db_item 5) = \<lparr>pk = 1, topic_map = 5\<rparr>"
    by (simp add: create_topic_def db_item_def empty_database_def)
  with create_topic_without_identifiers [OF k, of 5] show ?thesis by auto
qed

end
